theory Spec2Isabelle
  imports Complex_Main "HOL-Library.Sublist"
begin

section \<open>Position timestamp reconciliation of spikegadgets\_to\_nwb\<close>

text \<open>
  A shallow embedding of \<^verbatim>\<open>convert_position.py\<close>. Arrays are lists, Python exceptions are
  the left summand of a sum type, and numbers are rationals. The pause tests of the source
  decide on values it has computed in double precision: there every operation of the source
  is followed by the rounding \<open>float64\<close>. The other arithmetic on times (the lag estimate)
  is exact.
\<close>

subsection \<open>Errors and array primitives\<close>

datatype py_error =
    IndexError
  | KeyError
  | UnboundLocalError
  | AttributeError
  | ValueError string

text \<open>\<^verbatim>\<open>np.diff\<close>: successive differences, one element shorter than the input.\<close>

fun np_diff :: "'a::minus list \<Rightarrow> 'a list" where
  "np_diff (a # b # xs) = (b - a) # np_diff (b # xs)"
| "np_diff _ = []"

text \<open>\<^verbatim>\<open>np.nonzero(mask)[0]\<close>: the indices at which the mask is true, ascending.\<close>

definition np_nonzero :: "bool list \<Rightarrow> nat list" where
  "np_nonzero flags = filter (\<lambda>i. flags ! i) [0..<length flags]"

text \<open>\<^verbatim>\<open>xs[0]\<close>, which raises on an empty array.\<close>

definition item0 :: "'a list \<Rightarrow> py_error + 'a" where
  "item0 xs = (case xs of [] \<Rightarrow> Inl IndexError | x # _ \<Rightarrow> Inr x)"

subsection \<open>Sequence-break detector: repeated timestamps\<close>

text \<open>
  \<^verbatim>\<open>np.insert(timestamps[:-1] >= timestamps[1:], 0, False)\<close>: the comparison of every
  element with its successor, with one \<open>False\<close> put in front.
\<close>

definition detect_repeat_timestamps :: "'a::linorder list \<Rightarrow> bool list" where
  "detect_repeat_timestamps timestamps =
     False # map2 (\<lambda>a b. a \<ge> b) (butlast timestamps) (tl timestamps)"

subsection \<open>Double-precision arithmetic\<close>

text \<open>
  A \<^verbatim>\<open>float64\<close> is the rational it denotes. \<open>float64 x\<close> is the double nearest to \<open>x\<close>:
  53 significant bits, a tie goes to the even significand, and below \<open>2^-1022\<close> the spacing
  stays \<open>2^-1074\<close>. An operation of the source on doubles is the exact operation followed
  by \<open>float64\<close>. Overflow to infinity (magnitudes from \<open>2^1024\<close>) and NaN are not
  represented.
\<close>

text \<open>The number of binary digits of a positive integer.\<close>

function bit_length :: "int \<Rightarrow> int" where
  "bit_length n = (if n \<le> 0 then 0 else 1 + bit_length (n div 2))"
  by auto

termination
  by (relation "measure nat") auto

declare bit_length.simps [simp del]

function two_to :: "int \<Rightarrow> int" where
  "two_to e = (if e \<le> 0 then 1 else 2 * two_to (e - 1))"
  by auto

termination
  by (relation "measure nat") auto

declare two_to.simps [simp del]

text \<open>The integer \<open>k\<close> with \<open>2^k \<le> p / q < 2^(k + 1)\<close>, for positive \<open>p\<close> and \<open>q\<close>.\<close>

definition floor_log2 :: "int \<Rightarrow> int \<Rightarrow> int" where
  "floor_log2 p q =
     (let k = bit_length p - bit_length q
      in if (if k \<ge> 0 then q * two_to k \<le> p else q \<le> p * two_to (- k)) then k else k - 1)"

text \<open>The integer nearest to \<open>n / d\<close> for positive \<open>d\<close>, a tie going to the even one.\<close>

definition round_half_even :: "int \<Rightarrow> int \<Rightarrow> int" where
  "round_half_even n d =
     (let f = n div d; r = n mod d
      in if 2 * r < d then f
         else if 2 * r > d then f + 1
         else if even f then f else f + 1)"

text \<open>
  With \<open>\<bar>x\<bar> = p / q\<close> and \<open>e\<close> the exponent of the last significant bit, the significand is
  \<open>p / (q * 2^e)\<close> rounded to an integer.
\<close>

definition float64 :: "rat \<Rightarrow> rat" where
  "float64 x =
     (let p = \<bar>fst (quotient_of x)\<bar>; q = snd (quotient_of x)
      in if p = 0 then 0
         else (let e = max (floor_log2 p q - 52) (- 1074);
                   m = (if e \<ge> 0 then round_half_even p (q * two_to e)
                        else round_half_even (p * two_to (- e)) q);
                   v = (if e \<ge> 0 then of_int (m * two_to e)
                        else of_int m / of_int (two_to (- e)))
               in if x < 0 then - v else v))"

text \<open>\<^verbatim>\<open>a / b\<close> and \<^verbatim>\<open>np.diff\<close> on doubles.\<close>

definition true_divide :: "rat \<Rightarrow> rat \<Rightarrow> rat" where
  "true_divide a b = float64 (a / b)"

definition np_diff_float64 :: "rat list \<Rightarrow> rat list" where
  "np_diff_float64 xs = map float64 (np_diff xs)"

text \<open>The value an \<^verbatim>\<open>int64\<close> operation leaves: the result modulo \<open>2^64\<close>, signed.\<close>

definition int64 :: "int \<Rightarrow> int" where
  "int64 x = (x + 9223372036854775808) mod 18446744073709551616 - 9223372036854775808"

subsection \<open>Pause locator\<close>

definition NANOSECONDS_PER_SECOND :: rat where
  "NANOSECONDS_PER_SECOND = 1000000000"

text \<open>
  \<^verbatim>\<open>find_acquisition_timing_pause\<close> on a \<^verbatim>\<open>float64\<close> array, as the fallback branch calls it.
  The mask is computed on the first \<open>n_search\<close> samples, each divided by 1e9 and then
  differenced, in doubles; the first true index is taken (\<^verbatim>\<open>[0][0]\<close> raises IndexError
  when there is none) and the result is built with floor division \<^verbatim>\<open>//\<close>. Halving a
  double is exact and the floor of a double is a double, so \<^verbatim>\<open>x // 2\<close> needs no rounding.
  \<open>min_duration\<close> and \<open>max_duration\<close> are doubles.
\<close>

definition find_acquisition_timing_pause ::
    "rat list \<Rightarrow> rat \<Rightarrow> rat \<Rightarrow> nat \<Rightarrow> py_error + rat" where
  "find_acquisition_timing_pause timestamps min_duration max_duration n_search =
     (let timestamp_difference =
            np_diff_float64
              (map (\<lambda>t. true_divide t NANOSECONDS_PER_SECOND) (take n_search timestamps));
          is_valid_gap =
            map (\<lambda>d. d > min_duration \<and> d < max_duration) timestamp_difference
      in case item0 (np_nonzero is_valid_gap) of
           Inl e \<Rightarrow> Inl e
         | Inr pause_start_ind \<Rightarrow>
             (let pause_end_ind = pause_start_ind + 1
              in if pause_end_ind < length timestamps
                 then Inr (float64
                             (timestamps ! pause_start_ind
                              + of_int \<lfloor>float64 (timestamps ! pause_end_ind
                                                   - timestamps ! pause_start_ind) / 2\<rfloor>))
                 else Inl IndexError))"

text \<open>
  The same function on an \<^verbatim>\<open>int64\<close> array, as the test suite calls it. The division by
  1e9 first converts each integer to a double; the result is built in \<^verbatim>\<open>int64\<close>
  arithmetic.
\<close>

definition find_acquisition_timing_pause_int64 ::
    "int list \<Rightarrow> rat \<Rightarrow> rat \<Rightarrow> nat \<Rightarrow> py_error + int" where
  "find_acquisition_timing_pause_int64 timestamps min_duration max_duration n_search =
     (let timestamp_difference =
            np_diff_float64
              (map (\<lambda>t. true_divide (float64 (of_int t)) NANOSECONDS_PER_SECOND)
                   (take n_search timestamps));
          is_valid_gap =
            map (\<lambda>d. d > min_duration \<and> d < max_duration) timestamp_difference
      in case item0 (np_nonzero is_valid_gap) of
           Inl e \<Rightarrow> Inl e
         | Inr pause_start_ind \<Rightarrow>
             (let pause_end_ind = pause_start_ind + 1
              in if pause_end_ind < length timestamps
                 then Inr (int64
                             (timestamps ! pause_start_ind
                              + int64 (timestamps ! pause_end_ind
                                       - timestamps ! pause_start_ind) div 2))
                 else Inl IndexError))"

text \<open>
  The gap test of the source between the samples \<open>i\<close> and \<open>i + 1\<close> of a \<^verbatim>\<open>float64\<close>
  array: both are divided by 1e9, the quotients are subtracted, and the difference is
  compared with the two bounds.
\<close>

definition is_valid_gap_at :: "rat list \<Rightarrow> rat \<Rightarrow> rat \<Rightarrow> nat \<Rightarrow> bool" where
  "is_valid_gap_at timestamps min_duration max_duration i =
     (let d = float64 (true_divide (timestamps ! Suc i) NANOSECONDS_PER_SECOND
                       - true_divide (timestamps ! i) NANOSECONDS_PER_SECOND)
      in d > min_duration \<and> d < max_duration)"

text \<open>The doubles an \<^verbatim>\<open>int64\<close> array is converted to.\<close>

definition as_float64 :: "int list \<Rightarrow> rat list" where
  "as_float64 timestamps = map (\<lambda>t. float64 (of_int t)) timestamps"

subsection \<open>Precision-clock branch of the epoch resolver\<close>

text \<open>
  The \<^verbatim>\<open>if ptp_enabled:\<close> branch of \<^verbatim>\<open>get_position_timestamps\<close>. A row of the table is
  its \<^verbatim>\<open>HWTimestamp\<close> (integer nanoseconds) with the remaining columns \<open>'r\<close>. The branch
  divides by 1e9 in doubles, makes the quotient the index, tests the differences of the
  first 100 index values against the literals 0.4 and 2.0 written in the branch, and keeps
  \<^verbatim>\<open>iloc[pause_mid_ind:]\<close>. The \<^verbatim>\<open>[0][0]\<close> of the branch is outside every \<^verbatim>\<open>try\<close>.
\<close>

definition get_position_timestamps_ptp :: "(int \<times> 'r) list \<Rightarrow> py_error + (rat \<times> 'r) list" where
  "get_position_timestamps_ptp video_timestamps =
     (let ptp_timestamps =
            map (\<lambda>row. true_divide (float64 (of_int (fst row))) NANOSECONDS_PER_SECOND)
                video_timestamps;
          reindexed = zip ptp_timestamps (map snd video_timestamps);
          index_diff = np_diff_float64 (take 100 ptp_timestamps);
          flags = map2 (\<and>) (map (\<lambda>d. d > float64 (2 / 5)) index_diff)
                           (map (\<lambda>d. d < 2) index_diff)
      in case item0 (np_nonzero flags) of
           Inl e \<Rightarrow> Inl e
         | Inr pause_start \<Rightarrow> Inr (drop (pause_start + 1) reindexed))"

text \<open>The gap test of the branch between rows \<open>i\<close> and \<open>i + 1\<close>.\<close>

definition is_ptp_gap_at :: "(int \<times> 'r) list \<Rightarrow> nat \<Rightarrow> bool" where
  "is_ptp_gap_at video_timestamps i =
     (let d = float64
                (true_divide (float64 (of_int (fst (video_timestamps ! Suc i))))
                   NANOSECONDS_PER_SECOND
                 - true_divide (float64 (of_int (fst (video_timestamps ! i))))
                     NANOSECONDS_PER_SECOND)
      in d > float64 (2 / 5) \<and> d < 2)"

text \<open>The table with the converted timestamps as its index.\<close>

definition ptp_reindexed :: "(int \<times> 'r) list \<Rightarrow> (rat \<times> 'r) list" where
  "ptp_reindexed video_timestamps =
     map (\<lambda>row. (true_divide (float64 (of_int (fst row))) NANOSECONDS_PER_SECOND, snd row))
         video_timestamps"
subsection \<open>Pulse-train channel lookup\<close>

text \<open>
  The \<^verbatim>\<open>time_series\<close> dictionary of the behavioral events: channel name to timestamps, in
  insertion order. \<^verbatim>\<open>"camera ticks" in key\<close> is the contiguous-substring test.
\<close>

type_synonym time_series = "(string \<times> rat list) list"

definition MULTIPLE_CAMERA_DIO :: string where
  "MULTIPLE_CAMERA_DIO = ''Multiple camera dio channels found by name.''"

definition NO_CAMERA_DIO :: string where
  "NO_CAMERA_DIO = ''No camera dio channel found by name.''"

definition INSUFFICIENT_TICKS :: string where
  "INSUFFICIENT_TICKS = ''No camera dio has sufficient ticks for this epoch''"

definition camera_keys :: "time_series \<Rightarrow> string list" where
  "camera_keys series = filter (\<lambda>key. sublist ''camera ticks'' key) (map fst series)"

text \<open>The channels whose name carries the marker, with their timestamps.\<close>

definition camera_channels :: "time_series \<Rightarrow> time_series" where
  "camera_channels series = filter (\<lambda>channel. sublist ''camera ticks'' (fst channel)) series"

definition find_camera_dio_channel :: "time_series \<Rightarrow> py_error + rat list" where
  "find_camera_dio_channel series =
     (let dio_camera_name = camera_keys series
      in if length dio_camera_name > 1 then Inl (ValueError MULTIPLE_CAMERA_DIO)
         else if length dio_camera_name = 0 then Inl (ValueError NO_CAMERA_DIO)
         else (case map_of series (dio_camera_name ! 0) of
                 None \<Rightarrow> Inl KeyError
               | Some timestamps \<Rightarrow> Inr timestamps))"

definition epoch_ticks :: "rat \<Rightarrow> rat \<Rightarrow> rat list \<Rightarrow> rat list" where
  "epoch_ticks epoch_start epoch_end timestamps =
     filter (\<lambda>t. t \<ge> epoch_start \<and> t \<le> epoch_end) timestamps"

text \<open>The \<^verbatim>\<open>for camera in dio_camera_list\<close> loop and the \<^verbatim>\<open>raise\<close> after it.\<close>

fun scan_camera_list :: "time_series \<Rightarrow> rat \<Rightarrow> rat \<Rightarrow> string list \<Rightarrow> py_error + rat list" where
  "scan_camera_list series epoch_start epoch_end [] = Inl (ValueError INSUFFICIENT_TICKS)"
| "scan_camera_list series epoch_start epoch_end (camera # rest) =
     (case map_of series camera of
        None \<Rightarrow> Inl KeyError
      | Some dio_camera_timestamps \<Rightarrow>
          (if length (epoch_ticks epoch_start epoch_end dio_camera_timestamps) > 100
           then Inr (epoch_ticks epoch_start epoch_end dio_camera_timestamps)
           else scan_camera_list series epoch_start epoch_end rest))"

definition find_camera_dio_channel_per_epoch ::
    "time_series \<Rightarrow> rat \<Rightarrow> rat \<Rightarrow> py_error + rat list" where
  "find_camera_dio_channel_per_epoch series epoch_start epoch_end =
     (let dio_camera_list = camera_keys series
      in if dio_camera_list = [] then Inl (ValueError NO_CAMERA_DIO)
         else scan_camera_list series epoch_start epoch_end dio_camera_list)"

subsection \<open>Fallback branch: pause handling\<close>

datatype log_level = INFO | WARNING

type_synonym log_entry = "log_level \<times> string"

text \<open>
  The \<^verbatim>\<open>try\<close>/\<^verbatim>\<open>except IndexError\<close> at the head of the \<^verbatim>\<open>else:\<close> branch of
  \<^verbatim>\<open>get_position_timestamps\<close>, with the records the block hands to the logger. The
  pulse times are doubles in seconds; they are multiplied by 1e9 for the locator, which is
  called with its default window, and the pause found is divided by 1e9.
\<close>

definition non_ptp_pause_mid_time :: "rat list \<Rightarrow> py_error + (rat \<times> log_entry list)" where
  "non_ptp_pause_mid_time dio_camera_timestamps =
     (case find_acquisition_timing_pause
             (map (\<lambda>t. float64 (t * NANOSECONDS_PER_SECOND)) dio_camera_timestamps)
             (float64 (2 / 5)) 1 100 of
        Inr t \<Rightarrow>
          Inr (true_divide t NANOSECONDS_PER_SECOND,
               [(INFO, ''Camera frame rate estimated from DIO camera ticks:'')])
      | Inl IndexError \<Rightarrow> Inr (- 1, [])
      | Inl e \<Rightarrow> Inl e)"

text \<open>Boolean-mask indexing \<^verbatim>\<open>xs[flags]\<close>: the lengths must agree.\<close>

definition mask_select :: "'a list \<Rightarrow> bool list \<Rightarrow> py_error + 'a list" where
  "mask_select xs flags =
     (if length xs = length flags then Inr (map fst (filter snd (zip xs flags)))
      else Inl IndexError)"

text \<open>Boolean-mask assignment \<^verbatim>\<open>flags[flags] = vals\<close>: one value per true position.\<close>

fun scatter :: "bool list \<Rightarrow> bool list \<Rightarrow> bool list" where
  "scatter [] vals = []"
| "scatter (False # flags) vals = False # scatter flags vals"
| "scatter (True # flags) (v # vals) = v # scatter flags vals"
| "scatter (True # flags) [] = []"

definition mask_assign :: "bool list \<Rightarrow> bool list \<Rightarrow> py_error + bool list" where
  "mask_assign flags vals =
     (if length (filter id flags) = length vals then Inr (scatter flags vals)
      else if length vals = 1 then Inr (scatter flags (replicate (length flags) (hd vals)))
      else Inl (ValueError ''cannot assign input values to the output values''))"

definition remove_acquisition_timing_pause_non_ptp ::
    "rat list \<Rightarrow> int list \<Rightarrow> rat list \<Rightarrow> bool list \<Rightarrow> rat
       \<Rightarrow> py_error + (rat list \<times> int list \<times> bool list \<times> rat list)" where
  "remove_acquisition_timing_pause_non_ptp dio_systime frame_count camera_systime
       is_valid_camera_time pause_mid_time =
     (let after_pause = map (\<lambda>t. t > pause_mid_time) camera_systime
      in case mask_select frame_count is_valid_camera_time of
           Inl e \<Rightarrow> Inl e
         | Inr valid_frame_count \<Rightarrow>
             (case mask_select valid_frame_count after_pause of
                Inl e \<Rightarrow> Inl e
              | Inr frame_count' \<Rightarrow>
                  (case mask_assign is_valid_camera_time after_pause of
                     Inl e \<Rightarrow> Inl e
                   | Inr is_valid_camera_time' \<Rightarrow>
                       Inr (filter (\<lambda>t. t > pause_mid_time) dio_systime,
                            frame_count',
                            is_valid_camera_time',
                            filter (\<lambda>t. t > pause_mid_time) camera_systime))))"

subsection \<open>Fallback branch: lag estimate\<close>

text \<open>
  \<^verbatim>\<open>np.median\<close>; the median of an empty array is NaN, written \<open>None\<close>.
\<close>

definition np_median :: "rat list \<Rightarrow> rat option" where
  "np_median xs =
     (let s = sort xs; n = length xs
      in if n = 0 then None
         else if odd n then Some (s ! (n div 2))
         else Some ((s ! (n div 2 - 1) + s ! (n div 2)) / 2))"

text \<open>Element-wise subtraction with NumPy broadcasting of one-dimensional arrays.\<close>

definition np_subtract :: "rat list \<Rightarrow> rat list \<Rightarrow> py_error + rat list" where
  "np_subtract xs ys =
     (if length xs = length ys then Inr (map2 (-) xs ys)
      else if length xs = 1 then Inr (map (\<lambda>y. hd xs - y) ys)
      else if length ys = 1 then Inr (map (\<lambda>x. x - hd ys) xs)
      else Inl (ValueError ''operands could not be broadcast together''))"

definition estimate_camera_to_mcu_lag ::
    "rat list \<Rightarrow> rat list \<Rightarrow> nat \<Rightarrow> py_error + rat option" where
  "estimate_camera_to_mcu_lag camera_systime dio_systime n_breaks =
     (if n_breaks = 0
      then (case np_subtract camera_systime (take (length camera_systime) dio_systime) of
              Inl e \<Rightarrow> Inl e
            | Inr difference \<Rightarrow> Inr (np_median difference))
      else (case item0 camera_systime of
              Inl e \<Rightarrow> Inl e
            | Inr c \<Rightarrow> (case item0 dio_systime of
                          Inl e \<Rightarrow> Inl e
                        | Inr d \<Rightarrow> Inr (Some (c - d)))))"

text \<open>
  The call in \<^verbatim>\<open>get_position_timestamps\<close>: the third argument is
  \<^verbatim>\<open>len(non_repeat_timestamp_labels_id)\<close>, the number of surviving segments.
\<close>

definition non_ptp_camera_to_mcu_lag ::
    "rat list \<Rightarrow> rat list \<Rightarrow> nat list \<Rightarrow> py_error + rat option" where
  "non_ptp_camera_to_mcu_lag camera_systime dio_camera_timestamps non_repeat_timestamp_labels_id =
     estimate_camera_to_mcu_lag camera_systime dio_camera_timestamps
       (length non_repeat_timestamp_labels_id)"

subsection \<open>Sequence-break detector: frame jumps and segmentation\<close>

text \<open>\<^verbatim>\<open>np.insert(np.diff(frame_count) > min_frame_jump, 0, False)\<close>.\<close>

definition find_large_frame_jumps :: "int list \<Rightarrow> int \<Rightarrow> bool list" where
  "find_large_frame_jumps frame_count min_frame_jump =
     False # map (\<lambda>d. d > min_frame_jump) (np_diff frame_count)"

text \<open>\<^verbatim>\<open>np.logical_or\<close> on one-dimensional arrays, with NumPy broadcasting.\<close>

definition np_logical_or :: "bool list \<Rightarrow> bool list \<Rightarrow> py_error + bool list" where
  "np_logical_or xs ys =
     (if length xs = length ys then Inr (map2 (\<or>) xs ys)
      else if length xs = 1 then Inr (map (\<lambda>y. hd xs \<or> y) ys)
      else if length ys = 1 then Inr (map (\<lambda>x. x \<or> hd ys) xs)
      else Inl (ValueError ''operands could not be broadcast together''))"

text \<open>
  \<^verbatim>\<open>scipy.ndimage.label\<close> on a one-dimensional array: background positions get 0 and the
  maximal runs of true positions are numbered 1, 2, ... in scan order. The scan keeps
  whether the previous position was true and the last number given out.
\<close>

fun label_scan :: "bool \<Rightarrow> nat \<Rightarrow> bool list \<Rightarrow> nat list" where
  "label_scan prev cur [] = []"
| "label_scan prev cur (b # bs) =
     (if b then (if prev then cur # label_scan True cur bs
                 else Suc cur # label_scan True (Suc cur) bs)
      else 0 # label_scan False cur bs)"

definition ndimage_label :: "bool list \<Rightarrow> nat list" where
  "ndimage_label flags = label_scan False 0 flags"

text \<open>\<^verbatim>\<open>np.unique\<close>: the sorted distinct values, and with \<^verbatim>\<open>return_counts\<close> their counts.\<close>

definition np_unique :: "nat list \<Rightarrow> nat list" where
  "np_unique xs = sort (remdups xs)"

definition np_unique_counts :: "nat list \<Rightarrow> (nat \<times> nat) list" where
  "np_unique_counts xs = map (\<lambda>v. (v, count_list xs v)) (np_unique xs)"

definition detect_trodes_time_repeats_or_frame_jumps ::
    "int list \<Rightarrow> int list \<Rightarrow> py_error + (nat list \<times> nat list)" where
  "detect_trodes_time_repeats_or_frame_jumps trodes_time frame_count =
     (case np_logical_or (detect_repeat_timestamps trodes_time)
                         (find_large_frame_jumps frame_count 15) of
        Inl e \<Rightarrow> Inl e
      | Inr is_repeat_timestamp \<Rightarrow>
          (let repeat_timestamp_labels = ndimage_label is_repeat_timestamp;
               repeat_timestamp_labels_id =
                 map fst (filter (\<lambda>(v, c). v \<noteq> 0 \<and> c > 2)
                                 (np_unique_counts repeat_timestamp_labels));
               is_repeat_timestamp' =
                 map2 (\<lambda>flag l. if l \<notin> set repeat_timestamp_labels_id then False else flag)
                      is_repeat_timestamp repeat_timestamp_labels;
               non_repeat_timestamp_labels = ndimage_label (map Not is_repeat_timestamp');
               non_repeat_timestamp_labels_id =
                 filter (\<lambda>v. v \<noteq> 0) (np_unique non_repeat_timestamp_labels)
           in Inr (non_repeat_timestamp_labels, non_repeat_timestamp_labels_id)))"

text \<open>
  The segmentation in the words of the specification: the flagged positions are grouped
  into maximal runs, a run of at most two samples is un-flagged, and the maximal spans of
  non-flagged samples are numbered from 1, left to right, flagged samples getting 0.
\<close>

fun runs :: "bool list \<Rightarrow> (bool \<times> nat) list" where
  "runs [] = []"
| "runs (b # bs) =
     (case runs bs of
        [] \<Rightarrow> [(b, 1)]
      | (b', n) # rs \<Rightarrow> if b' = b then (b, Suc n) # rs else (b, 1) # (b', n) # rs)"

definition expand_runs :: "(bool \<times> nat) list \<Rightarrow> bool list" where
  "expand_runs rs = concat (map (\<lambda>(b, n). replicate n b) rs)"

definition unflag_short_runs :: "bool list \<Rightarrow> bool list" where
  "unflag_short_runs flags = expand_runs (map (\<lambda>(b, n). (b \<and> n > 2, n)) (runs flags))"

fun number_spans :: "nat \<Rightarrow> (bool \<times> nat) list \<Rightarrow> nat list" where
  "number_spans c [] = []"
| "number_spans c ((flagged, n) # rs) =
     (if flagged then replicate n 0 @ number_spans c rs
      else replicate n (Suc c) @ number_spans (Suc c) rs)"

definition label_spans :: "bool list \<Rightarrow> nat list" where
  "label_spans flags = number_spans 0 (runs flags)"

definition positive_labels :: "nat list \<Rightarrow> nat list" where
  "positive_labels labels = sorted_list_of_set {l \<in> set labels. l > 0}"

subsection \<open>Frame-count unwrapping\<close>







subsection \<open>Fallback branch: new index and duplicate collapse\<close>

text \<open>
  A cell of the table is a number or missing (NaN, \<open>None\<close>); a row is the list of its
  cells. \<^verbatim>\<open>groupby(index).first()\<close> of pandas sorts the group keys and takes, column by
  column, the first entry of the group that is not missing.
\<close>

type_synonym cell = "rat option"

fun first_valid :: "cell list \<Rightarrow> cell" where
  "first_valid [] = None"
| "first_valid (None # cs) = first_valid cs"
| "first_valid (Some v # cs) = Some v"

definition group_rows :: "(rat \<times> cell list) list \<Rightarrow> rat \<Rightarrow> cell list list" where
  "group_rows table k = map snd (filter (\<lambda>row. fst row = k) table)"

definition groupby_first :: "(rat \<times> cell list) list \<Rightarrow> (rat \<times> cell list) list" where
  "groupby_first table =
     map (\<lambda>k. (k, map first_valid (transpose (group_rows table k))))
         (sort (remdups (map fst table)))"

text \<open>
  The end of the \<^verbatim>\<open>else:\<close> branch of \<^verbatim>\<open>get_position_timestamps\<close>:
  \<^verbatim>\<open>np.concatenate\<close> of the per-segment corrected times (it raises on an empty list of
  arrays), \<^verbatim>\<open>set_index\<close> (it raises when the lengths differ) and
  \<^verbatim>\<open>groupby(video_timestamps.index).first()\<close>.
\<close>

definition non_ptp_set_index_and_collapse ::
    "cell list list \<Rightarrow> rat list list \<Rightarrow> py_error + (rat \<times> cell list) list" where
  "non_ptp_set_index_and_collapse video_timestamps corrected_camera_systime =
     (if corrected_camera_systime = []
      then Inl (ValueError ''need at least one array to concatenate'')
      else (let corrected = concat corrected_camera_systime
            in if length corrected \<noteq> length video_timestamps
               then Inl (ValueError ''Length mismatch'')
               else Inr (groupby_first (zip corrected video_timestamps))))"

subsection \<open>Epoch loop of \<^verbatim>\<open>add_position\<close>: choice of the files\<close>

record file_info =
  epoch :: nat
  file_extension :: string
  full_path :: string

text \<open>\<^verbatim>\<open>str.split(".")\<close>.\<close>

fun split_dot :: "string \<Rightarrow> string list" where
  "split_dot [] = [[]]"
| "split_dot (c # cs) =
     (if c = CHR ''.'' then [] # split_dot cs
      else (case split_dot cs of
              [] \<Rightarrow> [[c]]
            | part # parts \<Rightarrow> (c # part) # parts))"

text \<open>\<^verbatim>\<open>xs[-k]\<close> for \<open>k > 0\<close>.\<close>

definition item_from_end :: "'a list \<Rightarrow> nat \<Rightarrow> py_error + 'a" where
  "item_from_end xs k =
     (if 0 < k \<and> k \<le> length xs then Inr (xs ! (length xs - k)) else Inl IndexError)"

text \<open>\<^verbatim>\<open>session_df.epoch.unique()\<close>: the distinct values in order of first appearance.\<close>

definition unique_in_order :: "nat list \<Rightarrow> nat list" where
  "unique_in_order xs = rev (remdups (rev xs))"

text \<open>
  The list comprehension \<^verbatim>\<open>[full_path.split(".")[-3] == video_index for ...]\<close>; an index
  error in any element ends it.
\<close>

fun hw_sync_matches :: "string \<Rightarrow> file_info list \<Rightarrow> py_error + file_info list" where
  "hw_sync_matches video_index [] = Inr []"
| "hw_sync_matches video_index (f # fs) =
     (case item_from_end (split_dot (full_path f)) 3 of
        Inl e \<Rightarrow> Inl e
      | Inr part \<Rightarrow>
          (case hw_sync_matches video_index fs of
             Inl e \<Rightarrow> Inl e
           | Inr rest \<Rightarrow> Inr (if part = video_index then f # rest else rest)))"

text \<open>
  The body of the \<^verbatim>\<open>try\<close>: the tracking file of the epoch, then the hardware-sync file
  with the same video index. It yields both paths or the exception raised on the way.
  \<^verbatim>\<open>video_hw_df[...]\<close> is given the list of the comparisons: a non-empty list of
  booleans selects rows, but the empty list, which an epoch without hardware-sync file
  gives, selects no column, and \<^verbatim>\<open>.full_path\<close> on the result raises AttributeError.
\<close>

definition epoch_file_lookup :: "file_info list \<Rightarrow> nat \<Rightarrow> py_error + (string \<times> string)" where
  "epoch_file_lookup session_df e =
     (case item0 (map full_path
                    (filter (\<lambda>f. epoch f = e \<and> file_extension f = ''.videoPositionTracking'')
                            session_df)) of
        Inl err \<Rightarrow> Inl err
      | Inr position_tracking_filepath \<Rightarrow>
          (case item_from_end (split_dot position_tracking_filepath) 2 of
             Inl err \<Rightarrow> Inl err
           | Inr video_index \<Rightarrow>
               (let video_hw_df =
                      filter (\<lambda>f. epoch f = e \<and> file_extension f = ''.cameraHWSync'') session_df
                in case hw_sync_matches video_index video_hw_df of
                     Inl err \<Rightarrow> Inl err
                   | Inr matching \<Rightarrow>
                       (if video_hw_df = [] then Inl AttributeError
                        else (case item0 (map full_path matching) of
                                Inl err \<Rightarrow> Inl err
                              | Inr position_timestamps_filepath \<Rightarrow>
                                  Inr (position_tracking_filepath,
                                       position_timestamps_filepath))))))"

text \<open>
  What one pass of the loop hands to \<^verbatim>\<open>get_position_timestamps\<close> and what it emits: the
  epoch, the timestamps file and the tracking file passed, and the time index of the
  series created. Without a tracking file the series created is \<^verbatim>\<open>series_<epoch>\<close> with
  \<^verbatim>\<open>data=[]\<close>.
\<close>

record epoch_output =
  out_epoch :: nat
  timestamps_file :: string
  tracking_file :: "string option"
  series_rows :: nat
  series_timestamps :: "rat list"

text \<open>
  The \<^verbatim>\<open>for epoch in session_df.epoch.unique()\<close> loop. The local variable
  \<^verbatim>\<open>position_timestamps_filepath\<close> is carried from one pass to the next (\<open>None\<close> while it
  has never been assigned); \<^verbatim>\<open>except IndexError\<close> only sets
  \<^verbatim>\<open>position_tracking_filepath = None\<close>. Reading the unassigned variable in the logging
  call raises. \<^verbatim>\<open>get_position_timestamps\<close>, with the pulse-train lookup in front of it
  on the fallback path, is the parameter \<open>read_positions\<close>, which returns the time index
  and the number of position rows; the metadata lookups of the loop are taken to succeed.
\<close>

fun add_position_loop ::
    "(string \<Rightarrow> string option \<Rightarrow> py_error + (rat list \<times> nat))
       \<Rightarrow> file_info list \<Rightarrow> string option \<Rightarrow> nat list \<Rightarrow> py_error + epoch_output list" where
  "add_position_loop read_positions session_df position_timestamps_filepath [] = Inr []"
| "add_position_loop read_positions session_df position_timestamps_filepath (e # es) =
     (case (case epoch_file_lookup session_df e of
              Inr (tracking, timestamps) \<Rightarrow> Inr (Some timestamps, Some tracking)
            | Inl IndexError \<Rightarrow> Inr (position_timestamps_filepath, None)
            | Inl err \<Rightarrow> Inl err) of
        Inl err \<Rightarrow> Inl err
      | Inr (None, position_tracking_filepath) \<Rightarrow> Inl UnboundLocalError
      | Inr (Some timestamps_path, position_tracking_filepath) \<Rightarrow>
          (case read_positions timestamps_path position_tracking_filepath of
             Inl err \<Rightarrow> Inl err
           | Inr (index, n_rows) \<Rightarrow>
               (case add_position_loop read_positions session_df (Some timestamps_path) es of
                  Inl err \<Rightarrow> Inl err
                | Inr rest \<Rightarrow>
                    Inr (\<lparr>out_epoch = e, timestamps_file = timestamps_path,
                          tracking_file = position_tracking_filepath,
                          series_rows = (if position_tracking_filepath = None then 0 else n_rows),
                          series_timestamps = index\<rparr> # rest))))"

definition add_position ::
    "(string \<Rightarrow> string option \<Rightarrow> py_error + (rat list \<times> nat))
       \<Rightarrow> file_info list \<Rightarrow> py_error + epoch_output list" where
  "add_position read_positions session_df =
     add_position_loop read_positions session_df None (unique_in_order (map epoch session_df))"

section \<open>Array lemmas\<close>

lemma length_np_diff: "length (np_diff xs) = length xs - 1"
  by (induction xs rule: np_diff.induct) auto

lemma nth_np_diff: "Suc i < length xs \<Longrightarrow> np_diff xs ! i = xs ! Suc i - xs ! i"
proof (induction xs arbitrary: i rule: np_diff.induct)
  case (1 a b xs)
  then show ?case by (cases i) auto
qed auto

lemma item0_filter_least:
  assumes "i < n" and "P i" and "\<forall>j<i. \<not> P j"
  shows "item0 (filter P [0..<n]) = Inr i"
proof -
  have split: "[0..<n] = [0..<i] @ i # [Suc i..<n]"
    using assms(1) by (metis le_add_diff_inverse less_imp_le_nat upt_add_eq_append
        upt_conv_Cons zero_le)
  have "filter P [0..<i] = []"
    using assms(3) by (auto simp: filter_empty_conv)
  then show ?thesis
    using assms(2) by (simp add: split item0_def)
qed

lemma item0_filter_none:
  assumes "\<forall>j<n. \<not> P j"
  shows "item0 (filter P [0..<n]) = Inl IndexError"
proof -
  have "filter P [0..<n] = []"
    using assms by (auto simp: filter_empty_conv)
  then show ?thesis by (simp add: item0_def)
qed

lemma first_gap_index:
  assumes "Suc i < length xs" and "P (xs ! Suc i - xs ! i)"
    and "\<forall>j<i. \<not> P (xs ! Suc j - xs ! j)"
  shows "item0 (np_nonzero (map P (np_diff xs))) = Inr i"
proof -
  let ?m = "map P (np_diff xs)"
  have len: "length ?m = length xs - 1" by (simp add: length_np_diff)
  have nth: "?m ! j = P (xs ! Suc j - xs ! j)" if "Suc j < length xs" for j
  proof -
    have "j < length (np_diff xs)" using that unfolding length_np_diff by linarith
    then show ?thesis using that by (simp add: nth_np_diff)
  qed
  have "item0 (filter (\<lambda>j. ?m ! j) [0..<length ?m]) = Inr i"
  proof (rule item0_filter_least)
    show "i < length ?m" using assms(1) len by linarith
    show "?m ! i" using nth[OF assms(1)] assms(2) by simp
    show "\<forall>j<i. \<not> ?m ! j"
    proof (intro allI impI)
      fix j assume "j < i"
      then have "Suc j < length xs" using assms(1) by linarith
      then show "\<not> ?m ! j" using nth assms(3) \<open>j < i\<close> by simp
    qed
  qed
  then show ?thesis by (simp add: np_nonzero_def)
qed

lemma no_gap_index:
  assumes "\<forall>j. Suc j < length xs \<longrightarrow> \<not> P (xs ! Suc j - xs ! j)"
  shows "item0 (np_nonzero (map P (np_diff xs))) = Inl IndexError"
proof -
  let ?m = "map P (np_diff xs)"
  have len: "length ?m = length xs - 1" by (simp add: length_np_diff)
  have nth: "?m ! j = P (xs ! Suc j - xs ! j)" if "Suc j < length xs" for j
  proof -
    have "j < length (np_diff xs)" using that unfolding length_np_diff by linarith
    then show ?thesis using that by (simp add: nth_np_diff)
  qed
  have "item0 (filter (\<lambda>j. ?m ! j) [0..<length ?m]) = Inl IndexError"
  proof (rule item0_filter_none, intro allI impI)
    fix j assume "j < length ?m"
    then have "Suc j < length xs" using len by linarith
    then show "\<not> ?m ! j" using nth assms by simp
  qed
  then show ?thesis by (simp add: np_nonzero_def)
qed

lemma map2_conj: "map2 (\<and>) (map A xs) (map B xs) = map (\<lambda>x. A x \<and> B x) xs"
  by (induction xs) auto

text \<open>The first index at which a test on the rounded differences holds.\<close>

lemma float_gap_first:
  assumes "Suc i < length xs" and "G i" and "\<forall>j<i. \<not> G j"
    and test: "\<And>j. Suc j < length xs \<Longrightarrow> Q (float64 (xs ! Suc j - xs ! j)) = G j"
  shows "item0 (np_nonzero (map Q (np_diff_float64 xs))) = Inr i"
proof -
  have "item0 (np_nonzero (map (\<lambda>d. Q (float64 d)) (np_diff xs))) = Inr i"
  proof (rule first_gap_index)
    show "Suc i < length xs" by fact
    show "Q (float64 (xs ! Suc i - xs ! i))" using test[OF assms(1)] assms(2) by simp
    show "\<forall>j<i. \<not> Q (float64 (xs ! Suc j - xs ! j))"
    proof (intro allI impI)
      fix j assume "j < i"
      then have "Suc j < length xs" using assms(1) by linarith
      then show "\<not> Q (float64 (xs ! Suc j - xs ! j))" using test assms(3) \<open>j < i\<close> by simp
    qed
  qed
  then show ?thesis by (simp add: np_diff_float64_def comp_def)
qed

lemma float_gap_none:
  assumes "\<forall>j. Suc j < length xs \<longrightarrow> \<not> G j"
    and test: "\<And>j. Suc j < length xs \<Longrightarrow> Q (float64 (xs ! Suc j - xs ! j)) = G j"
  shows "item0 (np_nonzero (map Q (np_diff_float64 xs))) = Inl IndexError"
proof -
  have "item0 (np_nonzero (map (\<lambda>d. Q (float64 d)) (np_diff xs))) = Inl IndexError"
  proof (rule no_gap_index, intro allI impI)
    fix j assume "Suc j < length xs"
    then show "\<not> Q (float64 (xs ! Suc j - xs ! j))" using test assms(1) by simp
  qed
  then show ?thesis by (simp add: np_diff_float64_def comp_def)
qed

lemma int64_id:
  "- 9223372036854775808 \<le> x \<Longrightarrow> x < 9223372036854775808 \<Longrightarrow> int64 x = x"
  by (simp add: int64_def)
section \<open>Repeated-timestamp flags\<close>

lemma detect_repeat_timestamps_length:
  "timestamps \<noteq> [] \<Longrightarrow> length (detect_repeat_timestamps timestamps) = length timestamps"
  by (cases timestamps) (auto simp: detect_repeat_timestamps_def)

lemma detect_repeat_timestamps_head: "detect_repeat_timestamps timestamps ! 0 = False"
  by (simp add: detect_repeat_timestamps_def)

lemma detect_repeat_timestamps_nth:
  "0 < i \<Longrightarrow> i < length timestamps \<Longrightarrow>
   detect_repeat_timestamps timestamps ! i = (timestamps ! (i - 1) \<ge> timestamps ! i)"
  by (cases i) (auto simp: detect_repeat_timestamps_def nth_butlast nth_tl)

lemma detect_repeat_timestamps_example:
  "detect_repeat_timestamps [1, 2, 2, 3, 3, 3, 4 :: int] =
     [False, False, True, False, True, True, False]"
  by (simp add: detect_repeat_timestamps_def)

text \<open>
  Claim C10. The claim gives the flag array the length of its input for every timestamp
  sequence, the empty one included. On the empty sequence the comparison array is empty and
  \<^verbatim>\<open>np.insert\<close> still puts one \<open>False\<close> in front: the result has length one. For
  non-empty input the length, the leading \<open>False\<close> and the flags are as the claim says
  (\<open>detect_repeat_timestamps_length\<close>, \<open>detect_repeat_timestamps_head\<close>,
  \<open>detect_repeat_timestamps_nth\<close>).
\<close>

theorem detect_repeat_timestamps_empty:
  "detect_repeat_timestamps ([] :: int list) = [False]
   \<and> length (detect_repeat_timestamps ([] :: int list)) \<noteq> length ([] :: int list)"
  by (simp add: detect_repeat_timestamps_def)

section \<open>Pause locator\<close>

lemma find_pause_first:
  assumes "Suc i < min n_search (length timestamps)"
    and "is_valid_gap_at timestamps lo hi i"
    and "\<forall>j<i. \<not> is_valid_gap_at timestamps lo hi j"
  shows "find_acquisition_timing_pause timestamps lo hi n_search =
     Inr (float64 (timestamps ! i
                   + of_int \<lfloor>float64 (timestamps ! Suc i - timestamps ! i) / 2\<rfloor>))"
proof -
  let ?s = "map (\<lambda>t. true_divide t NANOSECONDS_PER_SECOND) (take n_search timestamps)"
  have "item0 (np_nonzero (map (\<lambda>d. d > lo \<and> d < hi) (np_diff_float64 ?s))) = Inr i"
  proof (rule float_gap_first[where G = "is_valid_gap_at timestamps lo hi"])
    show "Suc i < length ?s" using assms(1) by simp
    show "is_valid_gap_at timestamps lo hi i" by fact
    show "\<forall>j<i. \<not> is_valid_gap_at timestamps lo hi j" by fact
    fix j assume "Suc j < length ?s"
    then have "Suc j < min n_search (length timestamps)" by simp
    then show "(float64 (?s ! Suc j - ?s ! j) > lo \<and> float64 (?s ! Suc j - ?s ! j) < hi)
        = is_valid_gap_at timestamps lo hi j"
      by (simp add: is_valid_gap_at_def Let_def)
  qed
  then show ?thesis
    using assms(1) by (simp add: find_acquisition_timing_pause_def Let_def)
qed

lemma find_pause_none:
  assumes "\<forall>k. Suc k < min n_search (length timestamps) \<longrightarrow> \<not> is_valid_gap_at timestamps lo hi k"
  shows "find_acquisition_timing_pause timestamps lo hi n_search = Inl IndexError"
proof -
  let ?s = "map (\<lambda>t. true_divide t NANOSECONDS_PER_SECOND) (take n_search timestamps)"
  have "item0 (np_nonzero (map (\<lambda>d. d > lo \<and> d < hi) (np_diff_float64 ?s))) = Inl IndexError"
  proof (rule float_gap_none[where G = "is_valid_gap_at timestamps lo hi"])
    show "\<forall>j. Suc j < length ?s \<longrightarrow> \<not> is_valid_gap_at timestamps lo hi j"
      using assms by simp
    fix j assume "Suc j < length ?s"
    then have "Suc j < min n_search (length timestamps)" by simp
    then show "(float64 (?s ! Suc j - ?s ! j) > lo \<and> float64 (?s ! Suc j - ?s ! j) < hi)
        = is_valid_gap_at timestamps lo hi j"
      by (simp add: is_valid_gap_at_def Let_def)
  qed
  then show ?thesis
    by (simp add: find_acquisition_timing_pause_def Let_def)
qed

lemma int64_gap_test:
  assumes "Suc j < min n_search (length ticks)"
  shows "(float64 (map (\<lambda>t. true_divide (float64 (of_int t)) NANOSECONDS_PER_SECOND)
                       (take n_search ticks) ! Suc j
                   - map (\<lambda>t. true_divide (float64 (of_int t)) NANOSECONDS_PER_SECOND)
                       (take n_search ticks) ! j) > lo
          \<and> float64 (map (\<lambda>t. true_divide (float64 (of_int t)) NANOSECONDS_PER_SECOND)
                       (take n_search ticks) ! Suc j
                   - map (\<lambda>t. true_divide (float64 (of_int t)) NANOSECONDS_PER_SECOND)
                       (take n_search ticks) ! j) < hi)
         = is_valid_gap_at (as_float64 ticks) lo hi j"
  using assms by (simp add: is_valid_gap_at_def as_float64_def Let_def)

lemma floor_midpoint_int64:
  assumes "0 \<le> a" and "a < 9223372036854775808" and "0 \<le> b" and "b < 9223372036854775808"
  shows "int64 (a + int64 (b - a) div 2) = a + (b - a) div 2"
proof -
  have "int64 (b - a) = b - a" using assms by (intro int64_id) linarith+
  moreover have "int64 (a + (b - a) div 2) = a + (b - a) div 2"
    using assms by (intro int64_id) linarith+
  ultimately show ?thesis by simp
qed

lemma find_pause_int64_first:
  assumes "Suc i < min n_search (length ticks)"
    and "\<forall>t\<in>set ticks. 0 \<le> t \<and> t < 9223372036854775808"
    and "is_valid_gap_at (as_float64 ticks) lo hi i"
    and "\<forall>j<i. \<not> is_valid_gap_at (as_float64 ticks) lo hi j"
  shows "find_acquisition_timing_pause_int64 ticks lo hi n_search =
     Inr (ticks ! i + (ticks ! Suc i - ticks ! i) div 2)"
proof -
  let ?s = "map (\<lambda>t. true_divide (float64 (of_int t)) NANOSECONDS_PER_SECOND)
                (take n_search ticks)"
  have "item0 (np_nonzero (map (\<lambda>d. d > lo \<and> d < hi) (np_diff_float64 ?s))) = Inr i"
  proof (rule float_gap_first[where G = "is_valid_gap_at (as_float64 ticks) lo hi"])
    show "Suc i < length ?s" using assms(1) by simp
    show "is_valid_gap_at (as_float64 ticks) lo hi i" by fact
    show "\<forall>j<i. \<not> is_valid_gap_at (as_float64 ticks) lo hi j" by fact
    fix j assume "Suc j < length ?s"
    then have "Suc j < min n_search (length ticks)" by simp
    then show "(float64 (?s ! Suc j - ?s ! j) > lo \<and> float64 (?s ! Suc j - ?s ! j) < hi)
        = is_valid_gap_at (as_float64 ticks) lo hi j"
      by (rule int64_gap_test)
  qed
  moreover have "ticks ! i \<in> set ticks" and "ticks ! Suc i \<in> set ticks"
    using assms(1) by simp_all
  then have "int64 (ticks ! i + int64 (ticks ! Suc i - ticks ! i) div 2)
      = ticks ! i + (ticks ! Suc i - ticks ! i) div 2"
    using assms(2) by (intro floor_midpoint_int64) auto
  ultimately show ?thesis
    using assms(1) by (simp add: find_acquisition_timing_pause_int64_def Let_def)
qed

lemma find_pause_int64_none:
  assumes "\<forall>k. Suc k < min n_search (length ticks)
             \<longrightarrow> \<not> is_valid_gap_at (as_float64 ticks) lo hi k"
  shows "find_acquisition_timing_pause_int64 ticks lo hi n_search = Inl IndexError"
proof -
  let ?s = "map (\<lambda>t. true_divide (float64 (of_int t)) NANOSECONDS_PER_SECOND)
                (take n_search ticks)"
  have "item0 (np_nonzero (map (\<lambda>d. d > lo \<and> d < hi) (np_diff_float64 ?s))) = Inl IndexError"
  proof (rule float_gap_none[where G = "is_valid_gap_at (as_float64 ticks) lo hi"])
    show "\<forall>j. Suc j < length ?s \<longrightarrow> \<not> is_valid_gap_at (as_float64 ticks) lo hi j"
      using assms by simp
    fix j assume "Suc j < length ?s"
    then have "Suc j < min n_search (length ticks)" by simp
    then show "(float64 (?s ! Suc j - ?s ! j) > lo \<and> float64 (?s ! Suc j - ?s ! j) < hi)
        = is_valid_gap_at (as_float64 ticks) lo hi j"
      by (rule int64_gap_test)
  qed
  then show ?thesis
    by (simp add: find_acquisition_timing_pause_int64_def Let_def)
qed

text \<open>
  Claim C6, as the code has it. Among the first \<open>n_search\<close> samples the earliest gap is
  chosen whose duration in seconds, computed in double precision as the difference of the
  two samples each divided by 1e9, lies strictly between \<open>min_duration\<close> and
  \<open>max_duration\<close>. The value returned is \<^verbatim>\<open>timestamps[i] + (timestamps[i+1] -
  timestamps[i]) // 2\<close>, the earlier bounding sample plus half the gap rounded down to a
  whole number: evaluated in doubles for an array of doubles, and exactly for an array of
  non-negative 64-bit integers. With no such gap in the window the lookup of the first
  index raises IndexError. The two runs of the claim give 1.25e9 and 0.5e9, on the integer
  array of the test suite and on the same values as doubles.
\<close>

theorem find_acquisition_timing_pause_first_gap:
  "(Suc i < min n_search (length timestamps)
      \<and> is_valid_gap_at timestamps min_duration max_duration i
      \<and> (\<forall>j<i. \<not> is_valid_gap_at timestamps min_duration max_duration j)
     \<longrightarrow> find_acquisition_timing_pause timestamps min_duration max_duration n_search =
          Inr (float64 (timestamps ! i
                        + of_int \<lfloor>float64 (timestamps ! Suc i - timestamps ! i) / 2\<rfloor>)))
   \<and> ((\<forall>k. Suc k < min n_search (length timestamps)
             \<longrightarrow> \<not> is_valid_gap_at timestamps min_duration max_duration k)
     \<longrightarrow> find_acquisition_timing_pause timestamps min_duration max_duration n_search =
          Inl IndexError)
   \<and> (Suc i < min n_search (length ticks)
      \<and> (\<forall>t\<in>set ticks. 0 \<le> t \<and> t < 9223372036854775808)
      \<and> is_valid_gap_at (as_float64 ticks) min_duration max_duration i
      \<and> (\<forall>j<i. \<not> is_valid_gap_at (as_float64 ticks) min_duration max_duration j)
     \<longrightarrow> find_acquisition_timing_pause_int64 ticks min_duration max_duration n_search =
          Inr (ticks ! i + (ticks ! Suc i - ticks ! i) div 2))
   \<and> ((\<forall>k. Suc k < min n_search (length ticks)
             \<longrightarrow> \<not> is_valid_gap_at (as_float64 ticks) min_duration max_duration k)
     \<longrightarrow> find_acquisition_timing_pause_int64 ticks min_duration max_duration n_search =
          Inl IndexError)
   \<and> find_acquisition_timing_pause_int64
        [0, 1000000000, 1500000000, 2500000000, 3500000000, 4500000000]
        (float64 (2 / 5)) 1 100 =
      Inr 1250000000
   \<and> find_acquisition_timing_pause_int64
        [0, 1000000000, 1500000000, 2500000000, 3500000000, 4500000000]
        (float64 (2 / 5)) (float64 (11 / 10)) 100 =
      Inr 500000000
   \<and> find_acquisition_timing_pause
        [0, 1000000000, 1500000000, 2500000000, 3500000000, 4500000000]
        (float64 (2 / 5)) 1 100 =
      Inr 1250000000
   \<and> find_acquisition_timing_pause
        [0, 1000000000, 1500000000, 2500000000, 3500000000, 4500000000]
        (float64 (2 / 5)) (float64 (11 / 10)) 100 =
      Inr 500000000"
proof (intro conjI impI)
  assume "Suc i < min n_search (length timestamps)
      \<and> is_valid_gap_at timestamps min_duration max_duration i
      \<and> (\<forall>j<i. \<not> is_valid_gap_at timestamps min_duration max_duration j)"
  then show "find_acquisition_timing_pause timestamps min_duration max_duration n_search =
          Inr (float64 (timestamps ! i
                        + of_int \<lfloor>float64 (timestamps ! Suc i - timestamps ! i) / 2\<rfloor>))"
    using find_pause_first by blast
next
  assume "\<forall>k. Suc k < min n_search (length timestamps)
             \<longrightarrow> \<not> is_valid_gap_at timestamps min_duration max_duration k"
  then show "find_acquisition_timing_pause timestamps min_duration max_duration n_search =
          Inl IndexError"
    by (rule find_pause_none)
next
  assume "Suc i < min n_search (length ticks)
      \<and> (\<forall>t\<in>set ticks. 0 \<le> t \<and> t < 9223372036854775808)
      \<and> is_valid_gap_at (as_float64 ticks) min_duration max_duration i
      \<and> (\<forall>j<i. \<not> is_valid_gap_at (as_float64 ticks) min_duration max_duration j)"
  then show "find_acquisition_timing_pause_int64 ticks min_duration max_duration n_search =
          Inr (ticks ! i + (ticks ! Suc i - ticks ! i) div 2)"
    using find_pause_int64_first by blast
next
  assume "\<forall>k. Suc k < min n_search (length ticks)
             \<longrightarrow> \<not> is_valid_gap_at (as_float64 ticks) min_duration max_duration k"
  then show "find_acquisition_timing_pause_int64 ticks min_duration max_duration n_search =
          Inl IndexError"
    by (rule find_pause_int64_none)
next
  show "find_acquisition_timing_pause_int64
        [0, 1000000000, 1500000000, 2500000000, 3500000000, 4500000000]
        (float64 (2 / 5)) 1 100 =
      Inr 1250000000"
    by code_simp
next
  show "find_acquisition_timing_pause_int64
        [0, 1000000000, 1500000000, 2500000000, 3500000000, 4500000000]
        (float64 (2 / 5)) (float64 (11 / 10)) 100 =
      Inr 500000000"
    by code_simp
next
  show "find_acquisition_timing_pause
        [0, 1000000000, 1500000000, 2500000000, 3500000000, 4500000000]
        (float64 (2 / 5)) 1 100 =
      Inr 1250000000"
    by code_simp
next
  show "find_acquisition_timing_pause
        [0, 1000000000, 1500000000, 2500000000, 3500000000, 4500000000]
        (float64 (2 / 5)) (float64 (11 / 10)) 100 =
      Inr 500000000"
    by code_simp
qed

theorem find_acquisition_timing_pause_first_gap_witness:
  "find_acquisition_timing_pause [0, 700000001, 1400000002, 1500000000] (float64 (2 / 5)) 1 3 =
     Inr 350000000
   \<and> find_acquisition_timing_pause [0, 100000000] (float64 (2 / 5)) 1 100 = Inl IndexError
   \<and> find_acquisition_timing_pause_int64 [0, 700000001, 1400000002, 1500000000]
        (float64 (2 / 5)) 1 3 =
      Inr 350000000
   \<and> find_acquisition_timing_pause_int64 [0, 100000000] (float64 (2 / 5)) 1 100 =
      Inl IndexError"
proof (intro conjI)
  have g: "is_valid_gap_at [0, 700000001, 1400000002, 1500000000] (float64 (2 / 5)) 1 0"
    by code_simp
  have v: "float64 (([0, 700000001, 1400000002, 1500000000] :: rat list) ! 0
                    + of_int \<lfloor>float64 ([0, 700000001, 1400000002, 1500000000] ! Suc 0
                                        - [0, 700000001, 1400000002, 1500000000] ! 0) / 2\<rfloor>)
           = 350000000"
    by code_simp
  have "Suc 0 < min 3 (length [0::rat, 700000001, 1400000002, 1500000000])" by simp
  with g have "find_acquisition_timing_pause [0, 700000001, 1400000002, 1500000000]
       (float64 (2 / 5)) 1 3 =
     Inr (float64 (([0, 700000001, 1400000002, 1500000000] :: rat list) ! 0
                    + of_int \<lfloor>float64 ([0, 700000001, 1400000002, 1500000000] ! Suc 0
                                        - [0, 700000001, 1400000002, 1500000000] ! 0) / 2\<rfloor>))"
    using find_acquisition_timing_pause_first_gap
      [of 0 3 "[0, 700000001, 1400000002, 1500000000]" "float64 (2 / 5)" 1]
    by blast
  then show "find_acquisition_timing_pause [0, 700000001, 1400000002, 1500000000]
       (float64 (2 / 5)) 1 3 = Inr 350000000"
    by (simp only: v)
next
  have n: "\<not> is_valid_gap_at [0, 100000000] (float64 (2 / 5)) 1 0"
    by code_simp
  have "\<forall>k. Suc k < min 100 (length [0::rat, 100000000])
         \<longrightarrow> \<not> is_valid_gap_at [0, 100000000] (float64 (2 / 5)) 1 k"
    using n by simp
  then show "find_acquisition_timing_pause [0, 100000000] (float64 (2 / 5)) 1 100 =
      Inl IndexError"
    using find_acquisition_timing_pause_first_gap
      [of 0 100 "[0, 100000000]" "float64 (2 / 5)" 1]
    by blast
next
  have g: "is_valid_gap_at (as_float64 [0, 700000001, 1400000002, 1500000000])
             (float64 (2 / 5)) 1 0"
    by code_simp
  have r: "\<forall>t\<in>set [0::int, 700000001, 1400000002, 1500000000].
             0 \<le> t \<and> t < 9223372036854775808"
    by simp
  have "Suc 0 < min 3 (length [0::int, 700000001, 1400000002, 1500000000])" by simp
  with g r have "find_acquisition_timing_pause_int64 [0, 700000001, 1400000002, 1500000000]
       (float64 (2 / 5)) 1 3 =
     Inr ([0, 700000001, 1400000002, 1500000000] ! 0
          + ([0, 700000001, 1400000002, 1500000000] ! Suc 0
             - [0, 700000001, 1400000002, 1500000000] ! 0) div 2)"
    using find_acquisition_timing_pause_first_gap
      [of 0 3 _ "float64 (2 / 5)" 1 "[0, 700000001, 1400000002, 1500000000]"]
    by blast
  then show "find_acquisition_timing_pause_int64 [0, 700000001, 1400000002, 1500000000]
        (float64 (2 / 5)) 1 3 = Inr 350000000"
    by simp
next
  have n: "\<not> is_valid_gap_at (as_float64 [0, 100000000]) (float64 (2 / 5)) 1 0"
    by code_simp
  have "\<forall>k. Suc k < min 100 (length [0::int, 100000000])
         \<longrightarrow> \<not> is_valid_gap_at (as_float64 [0, 100000000]) (float64 (2 / 5)) 1 k"
    using n by simp
  then show "find_acquisition_timing_pause_int64 [0, 100000000] (float64 (2 / 5)) 1 100 =
      Inl IndexError"
    using find_acquisition_timing_pause_first_gap
      [of 0 100 _ "float64 (2 / 5)" 1 "[0, 100000000]"]
    by blast
qed

text \<open>
  The claim as written says the midpoint itself is returned, for a gap whose duration lies
  strictly between the bounds. For the samples 0 and 500000001 the source returns
  250000000, not 250000000.5. For the samples 700000000 and 1100000000 the gap is 0.4
  seconds, which is not above the lower bound 0.4; the difference of the two quotients in
  doubles is 0.40000000000000013 and the source returns 900000000.
\<close>

theorem find_acquisition_timing_pause_midpoint_counterexample:
  "find_acquisition_timing_pause_int64 [0, 500000001] (float64 (2 / 5)) 1 100 = Inr 250000000
   \<and> find_acquisition_timing_pause [0, 500000001] (float64 (2 / 5)) 1 100 = Inr 250000000
   \<and> (250000000 :: rat) \<noteq> (0 + 500000001) / 2
   \<and> find_acquisition_timing_pause_int64 [700000000, 1100000000] (float64 (2 / 5)) 1 100 =
       Inr 900000000
   \<and> \<not> (1100000000 - 700000000) / NANOSECONDS_PER_SECOND > float64 (2 / 5)
   \<and> \<not> (1100000000 - 700000000) / NANOSECONDS_PER_SECOND > 2 / 5"
  by code_simp

section \<open>Precision-clock branch\<close>

lemma ptp_gap_test:
  assumes "Suc j < min 100 (length v)"
  shows "(float64 (take 100 (map (\<lambda>row. true_divide (float64 (of_int (fst row)))
                                    NANOSECONDS_PER_SECOND) v) ! Suc j
                   - take 100 (map (\<lambda>row. true_divide (float64 (of_int (fst row)))
                                    NANOSECONDS_PER_SECOND) v) ! j) > float64 (2 / 5)
          \<and> float64 (take 100 (map (\<lambda>row. true_divide (float64 (of_int (fst row)))
                                    NANOSECONDS_PER_SECOND) v) ! Suc j
                   - take 100 (map (\<lambda>row. true_divide (float64 (of_int (fst row)))
                                    NANOSECONDS_PER_SECOND) v) ! j) < 2)
         = is_ptp_gap_at v j"
  using assms by (simp add: is_ptp_gap_at_def Let_def)

lemma zip_ptp_reindexed:
  "zip (map (\<lambda>row. true_divide (float64 (of_int (fst row))) NANOSECONDS_PER_SECOND) v)
       (map snd v) = ptp_reindexed v"
  by (induction v) (auto simp: ptp_reindexed_def)

lemma ptp_first:
  assumes "Suc i < min 100 (length v)" and "is_ptp_gap_at v i"
    and "\<forall>j<i. \<not> is_ptp_gap_at v j"
  shows "get_position_timestamps_ptp v = Inr (drop (Suc i) (ptp_reindexed v))"
proof -
  let ?ts = "take 100 (map (\<lambda>row. true_divide (float64 (of_int (fst row)))
                              NANOSECONDS_PER_SECOND) v)"
  have "item0 (np_nonzero (map (\<lambda>d. d > float64 (2 / 5) \<and> d < 2) (np_diff_float64 ?ts)))
      = Inr i"
  proof (rule float_gap_first[where G = "is_ptp_gap_at v"])
    show "Suc i < length ?ts" using assms(1) by simp
    show "is_ptp_gap_at v i" by fact
    show "\<forall>j<i. \<not> is_ptp_gap_at v j" by fact
    fix j assume "Suc j < length ?ts"
    then have "Suc j < min 100 (length v)" by simp
    then show "(float64 (?ts ! Suc j - ?ts ! j) > float64 (2 / 5)
          \<and> float64 (?ts ! Suc j - ?ts ! j) < 2) = is_ptp_gap_at v j"
      by (rule ptp_gap_test)
  qed
  then show ?thesis
    by (simp add: get_position_timestamps_ptp_def Let_def map2_conj zip_ptp_reindexed)
qed

text \<open>
  With no difference in the window the lookup of the first index, which is outside every
  \<^verbatim>\<open>try\<close>, raises.
\<close>

lemma ptp_none:
  assumes "\<forall>k. Suc k < min 100 (length v) \<longrightarrow> \<not> is_ptp_gap_at v k"
  shows "get_position_timestamps_ptp v = Inl IndexError"
proof -
  let ?ts = "take 100 (map (\<lambda>row. true_divide (float64 (of_int (fst row)))
                              NANOSECONDS_PER_SECOND) v)"
  have "item0 (np_nonzero (map (\<lambda>d. d > float64 (2 / 5) \<and> d < 2) (np_diff_float64 ?ts)))
      = Inl IndexError"
  proof (rule float_gap_none[where G = "is_ptp_gap_at v"])
    show "\<forall>j. Suc j < length ?ts \<longrightarrow> \<not> is_ptp_gap_at v j" using assms by simp
    fix j assume "Suc j < length ?ts"
    then have "Suc j < min 100 (length v)" by simp
    then show "(float64 (?ts ! Suc j - ?ts ! j) > float64 (2 / 5)
          \<and> float64 (?ts ! Suc j - ?ts ! j) < 2) = is_ptp_gap_at v j"
      by (rule ptp_gap_test)
  qed
  then show ?thesis
    by (simp add: get_position_timestamps_ptp_def Let_def map2_conj)
qed

text \<open>
  Claim C4, as the code has it. On the precision-clock branch the hardware timestamps are
  divided by 1e9 in double precision and become the index; among the first 100 index
  values the first successive difference, taken in double precision, that lies strictly
  between 0.4 and 2.0 seconds (the literals of the branch) marks the pause; the rows up to
  and including the one before the gap are dropped and the remaining index values are the
  converted timestamps themselves, with no regression.
\<close>

theorem get_position_timestamps_ptp_pause:
  "Suc i < min 100 (length video_timestamps)
      \<and> is_ptp_gap_at video_timestamps i
      \<and> (\<forall>j<i. \<not> is_ptp_gap_at video_timestamps j)
   \<longrightarrow> get_position_timestamps_ptp video_timestamps =
        Inr (drop (Suc i) (ptp_reindexed video_timestamps))"
  using ptp_first by blast

theorem get_position_timestamps_ptp_pause_witness:
  "get_position_timestamps_ptp
     [(0, 0::nat), (250000000, 1), (1750000000, 2), (2500000000, 3), (2625000000, 4)] =
   Inr [(7 / 4, 2), (5 / 2, 3), (21 / 8, 4)]"
proof -
  have g: "is_ptp_gap_at
      [(0, 0::nat), (250000000, 1), (1750000000, 2), (2500000000, 3), (2625000000, 4)] 1"
    by code_simp
  have n: "\<not> is_ptp_gap_at
      [(0, 0::nat), (250000000, 1), (1750000000, 2), (2500000000, 3), (2625000000, 4)] 0"
    by code_simp
  have b: "\<forall>j<1. \<not> is_ptp_gap_at
      [(0, 0::nat), (250000000, 1), (1750000000, 2), (2500000000, 3), (2625000000, 4)] j"
    using n by simp
  have r: "drop (Suc 1) (ptp_reindexed
      [(0, 0::nat), (250000000, 1), (1750000000, 2), (2500000000, 3), (2625000000, 4)])
      = [(7 / 4, 2), (5 / 2, 3), (21 / 8, 4)]"
    by code_simp
  have "Suc 1 < min 100 (length
      [(0::int, 0::nat), (250000000, 1), (1750000000, 2), (2500000000, 3), (2625000000, 4)])"
    by simp
  with g b have "get_position_timestamps_ptp
      [(0, 0::nat), (250000000, 1), (1750000000, 2), (2500000000, 3), (2625000000, 4)]
      = Inr (drop (Suc 1) (ptp_reindexed
          [(0, 0::nat), (250000000, 1), (1750000000, 2), (2500000000, 3), (2625000000, 4)]))"
    using get_position_timestamps_ptp_pause
      [of 1 "[(0, 0::nat), (250000000, 1), (1750000000, 2), (2500000000, 3), (2625000000, 4)]"]
    by blast
  then show ?thesis by (simp only: r)
qed

text \<open>
  The claim names the window (0.4, 1.0) of the pause locator. For the timestamps 0, 1.5,
  2.25 and 2.375 seconds the only gap in that window is the one of 0.75 seconds after the
  second sample, so the claim keeps the last two rows; the branch takes the gap of 1.5
  seconds and keeps three. The differences are those of the doubles: for the timestamps
  1700000000, 1700000000.4 and 1700000000.5 seconds the first gap is 0.4 seconds, which is
  not above 0.4, but the difference of the two doubles is 0.40000009536743164 and the
  branch keeps the last two rows.
\<close>

theorem get_position_timestamps_ptp_window_counterexample:
  "is_valid_gap_at (as_float64 [0, 1500000000, 2250000000, 2375000000]) (float64 (2 / 5)) 1 1
   \<and> \<not> is_valid_gap_at (as_float64 [0, 1500000000, 2250000000, 2375000000])
          (float64 (2 / 5)) 1 0
   \<and> get_position_timestamps_ptp
        [(0, 0::nat), (1500000000, 1), (2250000000, 2), (2375000000, 3)] =
      Inr [(3 / 2, 1), (9 / 4, 2), (19 / 8, 3)]
   \<and> get_position_timestamps_ptp
        [(0, 0::nat), (1500000000, 1), (2250000000, 2), (2375000000, 3)] \<noteq>
      Inr [(9 / 4, 2), (19 / 8, 3)]
   \<and> get_position_timestamps_ptp
        [(1700000000000000000, 0::nat), (1700000000400000000, 1), (1700000000500000000, 2)] =
      Inr [(3565158400838861 / 2097152, 1), (3400000001 / 2, 2)]
   \<and> \<not> (1700000000400000000 - 1700000000000000000) / NANOSECONDS_PER_SECOND > float64 (2 / 5)
   \<and> \<not> (1700000000400000000 - 1700000000000000000) / NANOSECONDS_PER_SECOND > 2 / 5"
  by code_simp

section \<open>Fallback branch: a pulse train without a pause\<close>

lemma scatter_all_true:
  "length vals = length (filter id flags) \<Longrightarrow> \<forall>v\<in>set vals. v \<Longrightarrow> scatter flags vals = flags"
proof (induction flags vals rule: scatter.induct)
qed auto

lemma mask_select_all_true:
  "length xs = length flags \<Longrightarrow> \<forall>f\<in>set flags. f \<Longrightarrow> mask_select xs flags = Inr xs"
proof -
  assume l: "length xs = length flags" and t: "\<forall>f\<in>set flags. f"
  have "filter snd (zip xs flags) = zip xs flags"
    using t by (auto simp: filter_id_conv dest: set_zip_rightD)
  then show ?thesis using l by (simp add: mask_select_def)
qed

lemma length_mask_select:
  "mask_select xs flags = Inr ys \<Longrightarrow> length ys = length (filter id flags)"
proof -
  assume a: "mask_select xs flags = Inr ys"
  then have l: "length xs = length flags" and ys: "ys = map fst (filter snd (zip xs flags))"
    by (auto simp: mask_select_def split: if_splits)
  have "length (filter snd (zip xs flags)) = length (filter id flags)" using l
    by (induction xs flags rule: list_induct2) auto
  then show ?thesis using ys by simp
qed

lemma remove_pause_sentinel:
  assumes "\<forall>t\<in>set dio_systime. t > - 1" and "\<forall>t\<in>set camera_systime. t > - 1"
    and "length frame_count = length is_valid_camera_time"
    and "length camera_systime = length (filter id is_valid_camera_time)"
  shows "remove_acquisition_timing_pause_non_ptp dio_systime frame_count camera_systime
           is_valid_camera_time (- 1) =
         Inr (dio_systime, map fst (filter snd (zip frame_count is_valid_camera_time)),
              is_valid_camera_time, camera_systime)"
proof -
  let ?after = "map (\<lambda>t. t > - 1) camera_systime"
  let ?fc = "map fst (filter snd (zip frame_count is_valid_camera_time))"
  have s1: "mask_select frame_count is_valid_camera_time = Inr ?fc"
    using assms(3) by (simp add: mask_select_def)
  have lfc: "length ?fc = length ?after"
    using length_mask_select[OF s1] assms(4) by simp
  have all: "\<forall>f\<in>set ?after. f" using assms(2) by auto
  have s2: "mask_select ?fc ?after = Inr ?fc"
    using lfc all by (rule mask_select_all_true)
  have s3: "mask_assign is_valid_camera_time ?after = Inr is_valid_camera_time"
    using assms(4) all by (simp add: mask_assign_def scatter_all_true)
  have f1: "filter (\<lambda>t. t > - 1) dio_systime = dio_systime"
    using assms(1) by (simp add: filter_id_conv)
  have f2: "filter (\<lambda>t. t > - 1) camera_systime = camera_systime"
    using assms(2) by (simp add: filter_id_conv)
  show ?thesis
    unfolding remove_acquisition_timing_pause_non_ptp_def Let_def
    by (simp only: s1 s2 s3 f1 f2 sum.case)
qed

text \<open>
  Claim C9, as the code has it. On the fallback branch, when the pause locator, called on
  the pulse times with its default window, ends with IndexError because it finds no
  qualifying gap among the first 100 pulse times, the exception is caught and the pause
  time is the sentinel -1; the \<^verbatim>\<open>try\<close>/\<^verbatim>\<open>except\<close> block hands no record to the logger, so
  no warning. With that sentinel the trimming step keeps every pulse time and every camera
  system time that is greater than -1, so none is dropped; the frame counts are only cut
  down to the valid camera times, as they are with a pause.
\<close>

theorem non_ptp_pause_not_found:
  "find_acquisition_timing_pause
       (map (\<lambda>t. float64 (t * NANOSECONDS_PER_SECOND)) dio_camera_timestamps)
       (float64 (2 / 5)) 1 100 = Inl IndexError
   \<longrightarrow> non_ptp_pause_mid_time dio_camera_timestamps = Inr (- 1, [])
     \<and> ((\<forall>t\<in>set dio_camera_timestamps. t > - 1) \<and> (\<forall>t\<in>set camera_systime. t > - 1)
        \<and> length frame_count = length is_valid_camera_time
        \<and> length camera_systime = length (filter id is_valid_camera_time)
        \<longrightarrow> remove_acquisition_timing_pause_non_ptp dio_camera_timestamps frame_count
              camera_systime is_valid_camera_time (- 1) =
            Inr (dio_camera_timestamps,
                 map fst (filter snd (zip frame_count is_valid_camera_time)),
                 is_valid_camera_time, camera_systime))"
proof (intro impI conjI)
  assume "find_acquisition_timing_pause
       (map (\<lambda>t. float64 (t * NANOSECONDS_PER_SECOND)) dio_camera_timestamps)
       (float64 (2 / 5)) 1 100 = Inl IndexError"
  then show "non_ptp_pause_mid_time dio_camera_timestamps = Inr (- 1, [])"
    by (simp add: non_ptp_pause_mid_time_def)
next
  assume "(\<forall>t\<in>set dio_camera_timestamps. t > - 1) \<and> (\<forall>t\<in>set camera_systime. t > - 1)
        \<and> length frame_count = length is_valid_camera_time
        \<and> length camera_systime = length (filter id is_valid_camera_time)"
  then show "remove_acquisition_timing_pause_non_ptp dio_camera_timestamps frame_count
              camera_systime is_valid_camera_time (- 1) =
            Inr (dio_camera_timestamps,
                 map fst (filter snd (zip frame_count is_valid_camera_time)),
                 is_valid_camera_time, camera_systime)"
    using remove_pause_sentinel by blast
qed

theorem non_ptp_pause_not_found_witness:
  "non_ptp_pause_mid_time [0, 1 / 8, 1 / 4] = Inr (- 1, [])
   \<and> remove_acquisition_timing_pause_non_ptp [0, 1 / 8, 1 / 4] [7, 8, 9] [5, 6]
        [True, False, True] (- 1) =
      Inr ([0, 1 / 8, 1 / 4], [7, 9], [True, False, True], [5, 6])"
proof -
  have h: "find_acquisition_timing_pause
       (map (\<lambda>t. float64 (t * NANOSECONDS_PER_SECOND)) [0, 1 / 8, 1 / 4])
       (float64 (2 / 5)) 1 100 = Inl IndexError"
    by code_simp
  have p: "(\<forall>t\<in>set [0::rat, 1 / 8, 1 / 4]. t > - 1) \<and> (\<forall>t\<in>set [5::rat, 6]. t > - 1)
        \<and> length [7::int, 8, 9] = length [True, False, True]
        \<and> length [5::rat, 6] = length (filter id [True, False, True])"
    by simp
  show ?thesis
    using non_ptp_pause_not_found
      [of "[0, 1 / 8, 1 / 4]" "[5, 6]" "[7, 8, 9]" "[True, False, True]"] h p
    by simp
qed

text \<open>
  The claim as written covers \<^verbatim>\<open>get_position_timestamps\<close> as a whole and has a warning
  logged. On the precision-clock branch the same lookup is outside every \<^verbatim>\<open>try\<close> and
  the IndexError leaves the function; on the fallback branch the handler hands no record
  to the logger.
\<close>

theorem pause_not_found_counterexample:
  "get_position_timestamps_ptp [(0, 0::nat), (125000000, 1), (250000000, 2)] = Inl IndexError
   \<and> non_ptp_pause_mid_time [0, 1 / 8, 1 / 4] = Inr (- 1, [])"
  by code_simp

section \<open>Pulse-train channel lookup\<close>

lemma camera_keys_channels: "camera_keys series = map fst (camera_channels series)"
  by (simp add: camera_keys_def camera_channels_def filter_map comp_def)

lemma scan_camera_list_find:
  assumes "distinct (map fst series)" and "set channels \<subseteq> set series"
  shows "scan_camera_list series epoch_start epoch_end (map fst channels) =
         (case find (\<lambda>c. length (epoch_ticks epoch_start epoch_end (snd c)) > 100) channels of
            None \<Rightarrow> Inl (ValueError INSUFFICIENT_TICKS)
          | Some c \<Rightarrow> Inr (epoch_ticks epoch_start epoch_end (snd c)))"
  using assms(2)
proof (induction channels)
  case Nil
  then show ?case by simp
next
  case (Cons c channels)
  obtain k v where c: "c = (k, v)" by (cases c)
  have "(k, v) \<in> set series" using Cons.prems c by simp
  then have "map_of series k = Some v" using assms(1) by simp
  then show ?case using Cons c by simp
qed

lemma per_epoch_find:
  assumes "distinct (map fst series)"
  shows "find_camera_dio_channel_per_epoch series epoch_start epoch_end =
         (if camera_channels series = [] then Inl (ValueError NO_CAMERA_DIO)
          else case find (\<lambda>c. length (epoch_ticks epoch_start epoch_end (snd c)) > 100)
                         (camera_channels series) of
                 None \<Rightarrow> Inl (ValueError INSUFFICIENT_TICKS)
               | Some c \<Rightarrow> Inr (epoch_ticks epoch_start epoch_end (snd c)))"
proof -
  have "set (camera_channels series) \<subseteq> set series" by (auto simp: camera_channels_def)
  then show ?thesis
    using scan_camera_list_find[OF assms]
    by (simp add: find_camera_dio_channel_per_epoch_def camera_keys_channels Let_def)
qed

text \<open>
  Claim C5, as the code has it (the names of a dictionary are distinct).
  \<^verbatim>\<open>find_camera_dio_channel\<close> raises the ambiguity error when more than one channel name
  contains the marker and the not-found error when none does.
  \<^verbatim>\<open>find_camera_dio_channel_per_epoch\<close> raises no ambiguity error: with no matching
  channel it raises the not-found error; otherwise it goes through the matching channels
  in order and returns the in-bounds timestamps of the first one with more than 100 ticks
  inside the closed epoch bounds; when every matching channel has fewer than 100 ticks
  inside the bounds it raises the insufficient-data error.
\<close>

theorem find_camera_dio_channel_outcomes:
  "distinct (map fst series) \<longrightarrow>
     (length (camera_channels series) > 1
        \<longrightarrow> find_camera_dio_channel series = Inl (ValueError MULTIPLE_CAMERA_DIO))
   \<and> (camera_channels series = []
        \<longrightarrow> find_camera_dio_channel series = Inl (ValueError NO_CAMERA_DIO)
          \<and> find_camera_dio_channel_per_epoch series epoch_start epoch_end =
            Inl (ValueError NO_CAMERA_DIO))
   \<and> (find (\<lambda>c. length (epoch_ticks epoch_start epoch_end (snd c)) > 100)
            (camera_channels series) = Some (name, timestamps)
        \<longrightarrow> find_camera_dio_channel_per_epoch series epoch_start epoch_end =
            Inr (epoch_ticks epoch_start epoch_end timestamps))
   \<and> (camera_channels series \<noteq> []
        \<and> (\<forall>c\<in>set (camera_channels series).
              length (epoch_ticks epoch_start epoch_end (snd c)) < 100)
        \<longrightarrow> find_camera_dio_channel_per_epoch series epoch_start epoch_end =
            Inl (ValueError INSUFFICIENT_TICKS))"
proof (intro impI conjI)
  assume "1 < length (camera_channels series)"
  then show "find_camera_dio_channel series = Inl (ValueError MULTIPLE_CAMERA_DIO)"
    by (simp add: find_camera_dio_channel_def camera_keys_channels)
next
  assume "camera_channels series = []"
  then show "find_camera_dio_channel series = Inl (ValueError NO_CAMERA_DIO)"
    by (simp add: find_camera_dio_channel_def camera_keys_channels)
next
  assume "distinct (map fst series)" and "camera_channels series = []"
  then show "find_camera_dio_channel_per_epoch series epoch_start epoch_end =
            Inl (ValueError NO_CAMERA_DIO)"
    by (simp add: per_epoch_find)
next
  assume d: "distinct (map fst series)"
    and f: "find (\<lambda>c. length (epoch_ticks epoch_start epoch_end (snd c)) > 100)
            (camera_channels series) = Some (name, timestamps)"
  then have "camera_channels series \<noteq> []" by auto
  then show "find_camera_dio_channel_per_epoch series epoch_start epoch_end =
            Inr (epoch_ticks epoch_start epoch_end timestamps)"
    using d f by (simp add: per_epoch_find)
next
  assume d: "distinct (map fst series)"
    and a: "camera_channels series \<noteq> []
        \<and> (\<forall>c\<in>set (camera_channels series).
              length (epoch_ticks epoch_start epoch_end (snd c)) < 100)"
  then have "find (\<lambda>c. length (epoch_ticks epoch_start epoch_end (snd c)) > 100)
            (camera_channels series) = None"
    by (auto simp: find_None_iff)
  then show "find_camera_dio_channel_per_epoch series epoch_start epoch_end =
            Inl (ValueError INSUFFICIENT_TICKS)"
    using d a by (simp add: per_epoch_find)
qed

theorem find_camera_dio_channel_outcomes_witness:
  "find_camera_dio_channel [(''camera ticks 1'', [1]), (''camera ticks 2'', [2])] =
     Inl (ValueError MULTIPLE_CAMERA_DIO)
   \<and> find_camera_dio_channel [(''reward'', [1])] = Inl (ValueError NO_CAMERA_DIO)
   \<and> find_camera_dio_channel_per_epoch [(''reward'', [1])] 0 100 = Inl (ValueError NO_CAMERA_DIO)
   \<and> find_camera_dio_channel_per_epoch
        [(''camera ticks 1'', [1, 2, 3]), (''camera ticks 2'', map of_nat [0..<102])] 1 101 =
      Inr (map of_nat [1..<102])
   \<and> find_camera_dio_channel_per_epoch [(''camera ticks 1'', [1, 2, 3])] 1 101 =
      Inl (ValueError INSUFFICIENT_TICKS)"
proof (intro conjI)
  have d: "distinct (map fst [(''camera ticks 1'', [1::rat]), (''camera ticks 2'', [2])])"
    by simp
  have l: "length (camera_channels [(''camera ticks 1'', [1::rat]), (''camera ticks 2'', [2])]) > 1"
    by code_simp
  show "find_camera_dio_channel [(''camera ticks 1'', [1]), (''camera ticks 2'', [2])] =
     Inl (ValueError MULTIPLE_CAMERA_DIO)"
    using find_camera_dio_channel_outcomes
      [of "[(''camera ticks 1'', [1]), (''camera ticks 2'', [2])]"] d l by blast
next
  have d: "distinct (map fst [(''reward'', [1::rat])])" by simp
  have e: "camera_channels [(''reward'', [1::rat])] = []" by code_simp
  show "find_camera_dio_channel [(''reward'', [1])] = Inl (ValueError NO_CAMERA_DIO)"
    using find_camera_dio_channel_outcomes [of "[(''reward'', [1])]"] d e by blast
  show "find_camera_dio_channel_per_epoch [(''reward'', [1])] 0 100 = Inl (ValueError NO_CAMERA_DIO)"
    using find_camera_dio_channel_outcomes [of "[(''reward'', [1])]" 0 100] d e by blast
next
  let ?s = "[(''camera ticks 1'', [1::rat, 2, 3]), (''camera ticks 2'', map of_nat [0..<102])]"
  have d: "distinct (map fst ?s)" by simp
  have f: "find (\<lambda>c. length (epoch_ticks 1 101 (snd c)) > 100) (camera_channels ?s)
            = Some (''camera ticks 2'', map of_nat [0..<102])"
    by code_simp
  have t: "epoch_ticks 1 101 (map of_nat [0..<102]) = map of_nat [1..<102]"
    by code_simp
  show "find_camera_dio_channel_per_epoch ?s 1 101 = Inr (map of_nat [1..<102])"
    using find_camera_dio_channel_outcomes
      [of ?s 1 101 "''camera ticks 2''" "map of_nat [0..<102]"] d f t by simp
next
  let ?s = "[(''camera ticks 1'', [1::rat, 2, 3])]"
  have d: "distinct (map fst ?s)" by simp
  have c: "camera_channels ?s = ?s" by code_simp
  have a: "camera_channels ?s \<noteq> []
        \<and> (\<forall>c\<in>set (camera_channels ?s). length (epoch_ticks 1 101 (snd c)) < 100)"
    unfolding c by (simp add: epoch_ticks_def)
  show "find_camera_dio_channel_per_epoch ?s 1 101 = Inl (ValueError INSUFFICIENT_TICKS)"
    using find_camera_dio_channel_outcomes [of ?s 1 101] d a by blast
qed

text \<open>
  The claim as written has the resolver of an epoch raise the ambiguity error whenever
  two names match, and raise the insufficient-data error only below 100 ticks. With two
  matching channels the per-epoch lookup returns the ticks of the first; with exactly 100
  ticks inside the bounds it raises.
\<close>

theorem find_camera_dio_channel_per_epoch_counterexample:
  "find_camera_dio_channel_per_epoch
      [(''camera ticks 1'', map of_nat [0..<101]), (''camera ticks 2'', map of_nat [0..<101])]
      0 100 = Inr (map of_nat [0..<101])
   \<and> length (epoch_ticks 0 99 (map of_nat [0..<100])) = 100
   \<and> find_camera_dio_channel_per_epoch [(''camera ticks'', map of_nat [0..<100])] 0 99 =
      Inl (ValueError INSUFFICIENT_TICKS)"
  by code_simp

section \<open>Fallback branch: lag estimate\<close>

lemma estimate_lag_no_breaks:
  "length camera_systime \<le> length dio_systime \<Longrightarrow>
   estimate_camera_to_mcu_lag camera_systime dio_systime 0 =
     Inr (np_median (map2 (-) camera_systime dio_systime))"
proof -
  assume l: "length camera_systime \<le> length dio_systime"
  have "zip xs (take (length xs) ys) = zip xs ys" for xs ys :: "rat list"
  proof (induction xs arbitrary: ys)
    case (Cons x xs)
    then show ?case by (cases ys) auto
  qed simp
  then show ?thesis using l
    by (simp add: estimate_camera_to_mcu_lag_def np_subtract_def)
qed

lemma estimate_lag_breaks:
  "n_breaks > 0 \<Longrightarrow>
   estimate_camera_to_mcu_lag (c # camera_systime) (d # dio_systime) n_breaks = Inr (Some (c - d))"
  by (simp add: estimate_camera_to_mcu_lag_def item0_def)

lemma non_ptp_lag_segments:
  "non_repeat_timestamp_labels_id \<noteq> [] \<Longrightarrow>
   non_ptp_camera_to_mcu_lag (c # camera_systime) (d # dio_systime) non_repeat_timestamp_labels_id =
     Inr (Some (c - d))"
  by (simp add: non_ptp_camera_to_mcu_lag_def estimate_lag_breaks)

text \<open>
  Claim C1. The claim gives the median of the differences when the detector leaves exactly
  one segment. \<^verbatim>\<open>estimate_camera_to_mcu_lag\<close> takes the median only for \<^verbatim>\<open>n_breaks == 0\<close>,
  and \<^verbatim>\<open>get_position_timestamps\<close> passes the number of segments for \<^verbatim>\<open>n_breaks\<close>. An
  epoch without any break has one segment: for the camera times 1000, 2000, 3000 and the
  pulse times 900, 1800, 2700 the detector returns the single label 1, the lag is the
  first difference 100, and the median of the differences is 200.
\<close>

theorem non_ptp_lag_single_segment:
  "detect_trodes_time_repeats_or_frame_jumps [1, 2, 3] [0, 1, 2] = Inr ([1, 1, 1], [1])
   \<and> non_ptp_camera_to_mcu_lag [1000, 2000, 3000] [900, 1800, 2700] [1] = Inr (Some 100)
   \<and> np_median (map2 (-) [1000, 2000, 3000] [900, 1800, 2700]) = Some 200
   \<and> estimate_camera_to_mcu_lag [1000, 2000, 3000] [900, 1800, 2700] 0 = Inr (Some 200)"
  by code_simp

section \<open>Epoch loop of \<^verbatim>\<open>add_position\<close>\<close>

text \<open>
  Claim C3. The claim has an epoch without a tracking file processed from its own
  video-timestamps file. In the loop the timestamps path is assigned only after the
  tracking file has been found, inside the same \<^verbatim>\<open>try\<close>. A session whose only epoch has
  a hardware-sync file and no tracking file fails on the unassigned variable; when an
  earlier epoch had a tracking file, the later epoch without one is read from the earlier
  epoch's timestamps file.
\<close>

theorem add_position_no_tracking_file:
  "add_position read_positions
      [\<lparr>epoch = 1, file_extension = ''.cameraHWSync'',
        full_path = ''s_01.1.videoTimeStamps.cameraHWSync''\<rparr>] = Inl UnboundLocalError
   \<and> add_position (\<lambda>timestamps_path tracking_path. Inr ([], 0))
      [\<lparr>epoch = 1, file_extension = ''.videoPositionTracking'',
        full_path = ''s_01.1.videoPositionTracking''\<rparr>,
       \<lparr>epoch = 1, file_extension = ''.cameraHWSync'',
        full_path = ''s_01.1.videoTimeStamps.cameraHWSync''\<rparr>,
       \<lparr>epoch = 2, file_extension = ''.cameraHWSync'',
        full_path = ''s_02.1.videoTimeStamps.cameraHWSync''\<rparr>] =
     Inr [\<lparr>out_epoch = 1, timestamps_file = ''s_01.1.videoTimeStamps.cameraHWSync'',
           tracking_file = Some ''s_01.1.videoPositionTracking'',
           series_rows = 0, series_timestamps = []\<rparr>,
          \<lparr>out_epoch = 2, timestamps_file = ''s_01.1.videoTimeStamps.cameraHWSync'',
           tracking_file = None, series_rows = 0, series_timestamps = []\<rparr>]"
  by code_simp

section \<open>Fallback branch: new index and duplicate collapse\<close>

lemma groupby_first_index:
  "map fst (groupby_first table) = sorted_list_of_set (set (map fst table))"
proof -
  have "map fst (groupby_first table) = sort (remdups (map fst table))"
    by (simp add: groupby_first_def comp_def)
  then show ?thesis by (simp only: sorted_list_of_set_sort_remdups)
qed

lemma groupby_first_index_strict: "sorted_wrt (<) (map fst (groupby_first table))"
  unfolding groupby_first_index by (simp add: strict_sorted_iff)

lemma first_valid_Some: "c \<noteq> None \<Longrightarrow> first_valid (c # cs) = c"
  by (cases c) auto

lemma map_nth_upt: "map (\<lambda>j. f (g ! j)) [0..<length g] = map f g"
proof -
  have "map f (map ((!) g) [0..<length g]) = map f g" by (simp only: map_nth)
  then show ?thesis by (simp add: comp_def)
qed

lemma first_valid_columns:
  assumes "g \<noteq> []" and "\<forall>r\<in>set g. length r = n"
  shows "map first_valid (transpose g) = map (\<lambda>i. first_valid (map (\<lambda>r. r ! i) g)) [0..<n]"
proof -
  have "transpose g = map (\<lambda>i. map (\<lambda>j. g ! j ! i) [0..<length g]) [0..<n]"
    using assms by (intro transpose_rectangle) auto
  moreover have "map (\<lambda>j. g ! j ! i) [0..<length g] = map (\<lambda>r. r ! i) g" for i
    by (rule map_nth_upt)
  ultimately show ?thesis by (simp add: comp_def)
qed

lemma group_entry:
  assumes "k \<in> fst ` set table" and "\<forall>row\<in>set table. length (snd row) = n"
  shows "(k, map (\<lambda>i. first_valid (map (\<lambda>r. r ! i) (group_rows table k))) [0..<n])
           \<in> set (groupby_first table)"
proof -
  have ne: "group_rows table k \<noteq> []"
    using assms(1) by (auto simp: group_rows_def filter_empty_conv)
  have rect: "\<forall>r\<in>set (group_rows table k). length r = n"
    using assms(2) by (auto simp: group_rows_def)
  have "(k, map first_valid (transpose (group_rows table k))) \<in> set (groupby_first table)"
    using assms(1) by (auto simp: groupby_first_def)
  then show ?thesis using first_valid_columns[OF ne rect] by simp
qed

lemma first_row_complete:
  assumes "g = r0 # rest" and "None \<notin> set r0" and "length r0 = n"
  shows "map (\<lambda>i. first_valid (map (\<lambda>r. r ! i) g)) [0..<n] = r0"
proof (rule nth_equalityI)
  show "length (map (\<lambda>i. first_valid (map (\<lambda>r. r ! i) g)) [0..<n]) = length r0"
    using assms(3) by simp
next
  fix i assume "i < length (map (\<lambda>i. first_valid (map (\<lambda>r. r ! i) g)) [0..<n])"
  then have i: "i < n" by simp
  then have "r0 ! i \<noteq> None" using assms(2,3) by (metis nth_mem)
  then show "map (\<lambda>i. first_valid (map (\<lambda>r. r ! i) g)) [0..<n] ! i = r0 ! i"
    using i assms(1) by (simp add: first_valid_Some)
qed

text \<open>
  Claim C2, as the code has it. When there is at least one segment and the corrected
  times are as many as the rows, the step does not raise: the corrected times of the
  segments, concatenated in the order of the segments, become the index; the index of the
  returned table holds every corrected time once, in strictly increasing order; and for
  a time that several rows share the returned row holds, column by column, the first
  entry among these rows that is not missing. That is the row of the first occurrence
  whenever this row has no missing entry.
\<close>

theorem non_ptp_set_index_and_collapse_first_valid:
  "corrected_camera_systime \<noteq> []
   \<and> length (concat corrected_camera_systime) = length video_timestamps
   \<and> (\<forall>r\<in>set video_timestamps. length r = n)
   \<longrightarrow> (\<exists>table.
         non_ptp_set_index_and_collapse video_timestamps corrected_camera_systime = Inr table
       \<and> map fst table = sorted_list_of_set (set (concat corrected_camera_systime))
       \<and> sorted_wrt (<) (map fst table)
       \<and> (\<forall>k\<in>set (concat corrected_camera_systime). \<exists>cells.
             (k, cells) \<in> set table
           \<and> length cells = n
           \<and> (\<forall>j<n. cells ! j =
                  first_valid (map (\<lambda>r. r ! j)
                    (group_rows (zip (concat corrected_camera_systime) video_timestamps) k)))
           \<and> (\<forall>first_row later_rows.
                  group_rows (zip (concat corrected_camera_systime) video_timestamps) k =
                    first_row # later_rows
                  \<and> None \<notin> set first_row
                \<longrightarrow> cells = first_row)))"
proof (intro impI)
  let ?times = "concat corrected_camera_systime"
  let ?tab = "zip ?times video_timestamps"
  assume a: "corrected_camera_systime \<noteq> []
   \<and> length ?times = length video_timestamps
   \<and> (\<forall>r\<in>set video_timestamps. length r = n)"
  have res: "non_ptp_set_index_and_collapse video_timestamps corrected_camera_systime =
      Inr (groupby_first ?tab)"
    using a by (simp add: non_ptp_set_index_and_collapse_def Let_def)
  have keys: "map fst ?tab = ?times" using a by simp
  have rect: "\<forall>row\<in>set ?tab. length (snd row) = n"
    using a by (auto dest: set_zip_rightD)
  have idx: "map fst (groupby_first ?tab) = sorted_list_of_set (set ?times)"
    using groupby_first_index[of ?tab] keys by simp
  have rows: "\<exists>cells. (k, cells) \<in> set (groupby_first ?tab) \<and> length cells = n
           \<and> (\<forall>j<n. cells ! j = first_valid (map (\<lambda>r. r ! j) (group_rows ?tab k)))
           \<and> (\<forall>first_row later_rows.
                  group_rows ?tab k = first_row # later_rows \<and> None \<notin> set first_row
                \<longrightarrow> cells = first_row)"
    if k: "k \<in> set ?times" for k
  proof -
    let ?cells = "map (\<lambda>i. first_valid (map (\<lambda>r. r ! i) (group_rows ?tab k))) [0..<n]"
    have "k \<in> fst ` set ?tab" using k keys by (metis set_map)
    then have m: "(k, ?cells) \<in> set (groupby_first ?tab)"
      using rect by (rule group_entry)
    have f: "?cells = first_row"
      if "group_rows ?tab k = first_row # later_rows \<and> None \<notin> set first_row"
      for first_row later_rows
    proof -
      have "first_row \<in> set (group_rows ?tab k)" using that by simp
      then have "length first_row = n" using rect by (auto simp: group_rows_def)
      then show ?thesis using that first_row_complete by blast
    qed
    show ?thesis
      using m f by (intro exI[of _ ?cells]) auto
  qed
  show "\<exists>table.
         non_ptp_set_index_and_collapse video_timestamps corrected_camera_systime = Inr table
       \<and> map fst table = sorted_list_of_set (set ?times)
       \<and> sorted_wrt (<) (map fst table)
       \<and> (\<forall>k\<in>set ?times. \<exists>cells.
             (k, cells) \<in> set table
           \<and> length cells = n
           \<and> (\<forall>j<n. cells ! j = first_valid (map (\<lambda>r. r ! j) (group_rows ?tab k)))
           \<and> (\<forall>first_row later_rows.
                  group_rows ?tab k = first_row # later_rows \<and> None \<notin> set first_row
                \<longrightarrow> cells = first_row))"
    using res idx groupby_first_index_strict[of ?tab] rows
    by (intro exI[of _ "groupby_first ?tab"]) blast
qed

theorem non_ptp_set_index_and_collapse_first_valid_witness:
  "\<exists>table. non_ptp_set_index_and_collapse
        [[Some 5, None], [Some 5, Some 3], [Some 1, Some 2]] [[1, 1], [1 / 2]] = Inr table
     \<and> map fst table = [1 / 2, 1]
     \<and> (1 / 2, [Some 1, Some 2]) \<in> set table"
proof -
  let ?V = "[[Some 5, None], [Some 5, Some 3], [Some 1, Some (2 :: rat)]]"
  let ?C = "[[1, 1], [1 / (2 :: rat)]]"
  have h: "?C \<noteq> [] \<and> length (concat ?C) = length ?V \<and> (\<forall>r\<in>set ?V. length r = 2)"
    by simp
  have s: "sorted_list_of_set (set (concat ?C)) = [1 / 2, 1]"
    by code_simp
  have g: "group_rows (zip (concat ?C) ?V) (1 / 2) = [Some 1, Some 2] # []"
    by code_simp
  have n: "None \<notin> set [Some 1, Some (2 :: rat)]"
    by simp
  have k: "1 / 2 \<in> set (concat ?C)"
    by simp
  from non_ptp_set_index_and_collapse_first_valid [of ?C ?V 2] h
  obtain table where t: "non_ptp_set_index_and_collapse ?V ?C = Inr table"
    and i: "map fst table = sorted_list_of_set (set (concat ?C))"
    and r: "\<forall>k\<in>set (concat ?C). \<exists>cells. (k, cells) \<in> set table \<and> length cells = 2
           \<and> (\<forall>j<2. cells ! j = first_valid (map (\<lambda>r. r ! j) (group_rows (zip (concat ?C) ?V) k)))
           \<and> (\<forall>first_row later_rows.
                  group_rows (zip (concat ?C) ?V) k = first_row # later_rows
                  \<and> None \<notin> set first_row \<longrightarrow> cells = first_row)"
    by blast
  from r k obtain cells where c: "(1 / 2, cells) \<in> set table"
    and f: "\<forall>first_row later_rows.
                  group_rows (zip (concat ?C) ?V) (1 / 2) = first_row # later_rows
                  \<and> None \<notin> set first_row \<longrightarrow> cells = first_row"
    by blast
  from f g n have "cells = [Some 1, Some 2]" by blast
  with t i s c show ?thesis by auto
qed

text \<open>
  The claim as written keeps the row of the first occurrence. Two rows with the same
  corrected time, the first without a tracked position in its second column (the left
  join found no tracking row) and the second with one, collapse into a row that takes the
  second column from the second row.
\<close>

theorem non_ptp_set_index_and_collapse_counterexample:
  "non_ptp_set_index_and_collapse [[Some 5, None], [Some 5, Some 3]] [[1, 1]] =
     Inr [(1, [Some 5, Some 3])]
   \<and> [Some 5, Some 3] \<noteq> [Some 5, None :: rat option]"
  by code_simp

section \<open>Frame-count unwrapping\<close>
















section \<open>Segmentation\<close>

subsection \<open>Runs\<close>

lemma expand_runs_Cons: "expand_runs ((b, n) # rs) = replicate n b @ expand_runs rs"
  by (simp add: expand_runs_def)

lemma expand_runs_Nil: "expand_runs [] = []"
  by (simp add: expand_runs_def)

lemma expand_runs_runs: "expand_runs (runs bs) = bs"
  by (induction bs) (auto simp: expand_runs_Cons expand_runs_Nil split: list.splits)

lemma runs_positive: "(b, n) \<in> set (runs bs) \<Longrightarrow> 0 < n"
  by (induction bs arbitrary: b n) (auto split: list.splits if_splits)

lemma runs_maximal: "distinct_adj (map fst (runs bs))"
  by (induction bs) (auto split: list.splits)

lemma runs_map_Not: "runs (map Not bs) = map (apfst Not) (runs bs)"
  by (induction bs) (auto split: list.splits)

lemma length_expand_unflag:
  "length (expand_runs (map (\<lambda>(b, n). (b \<and> n > 2, n)) rs)) = length (expand_runs rs)"
  by (induction rs) (auto simp: expand_runs_Cons expand_runs_Nil)

lemma length_unflag_short_runs: "length (unflag_short_runs flags) = length flags"
  using length_expand_unflag[of "runs flags"] by (simp add: unflag_short_runs_def expand_runs_runs)

lemma length_number_spans: "length (number_spans c rs) = length (expand_runs rs)"
  by (induction c rs rule: number_spans.induct) (auto simp: expand_runs_Cons expand_runs_Nil)

lemma length_label_spans: "length (label_spans flags) = length flags"
  by (simp add: label_spans_def length_number_spans expand_runs_runs)

lemma number_spans_zero: "map (\<lambda>l. l = 0) (number_spans c rs) = expand_runs rs"
  by (induction c rs rule: number_spans.induct) (auto simp: expand_runs_Cons expand_runs_Nil)

lemma label_spans_zero: "map (\<lambda>l. l = 0) (label_spans flags) = flags"
  by (simp add: label_spans_def number_spans_zero expand_runs_runs)

lemma number_spans_above: "l \<in> set (number_spans c rs) \<Longrightarrow> l = 0 \<or> c < l"
  by (induction c rs arbitrary: l rule: number_spans.induct) (fastforce split: if_splits)+

subsection \<open>The scan of \<^verbatim>\<open>label\<close> numbers the runs\<close>

lemma label_scan_runs:
  "label_scan False c bs = number_spans c (map (apfst Not) (runs bs))"
  "label_scan True c bs =
     (case runs bs of
        (True, n) # rs \<Rightarrow> replicate n c @ number_spans c (map (apfst Not) rs)
      | _ \<Rightarrow> number_spans c (map (apfst Not) (runs bs)))"
proof (induction bs arbitrary: c)
  case Nil
  { case 1 show ?case by simp }
  { case 2 show ?case by simp }
next
  case (Cons b bs)
  { case 1
    show ?case using Cons.IH(1)[of c] Cons.IH(2)[of "Suc c"]
      by (auto split: list.splits bool.splits) }
  { case 2
    show ?case using Cons.IH(1)[of c] Cons.IH(2)[of c]
      by (auto split: list.splits bool.splits) }
qed

lemma ndimage_label_runs: "ndimage_label bs = number_spans 0 (map (apfst Not) (runs bs))"
  by (simp add: ndimage_label_def label_scan_runs(1))

lemma ndimage_label_Not: "ndimage_label (map Not bs) = label_spans bs"
proof -
  have "map (apfst Not) (map (apfst Not) rs) = rs" for rs :: "(bool \<times> nat) list"
    by (induction rs) auto
  then show ?thesis
    by (simp add: ndimage_label_runs runs_map_Not label_spans_def)
qed

subsection \<open>Runs of at most two flags are un-flagged\<close>

lemma map2_append:
  "length xs = length us \<Longrightarrow>
   map2 f (xs @ ys) (us @ vs) = map2 f xs us @ map2 f ys vs"
  by simp

lemma map2_replicate: "map2 f (replicate n x) (replicate n y) = replicate n (f x y)"
  by (simp add: zip_replicate)

lemma count_list_replicate_same: "count_list (replicate n x) x = n"
  by (induction n) auto

lemma unflag_by_counts:
  assumes "\<forall>l\<in>set pre. l \<le> c"
  shows "map2 (\<lambda>flag l. flag \<and> l \<noteq> 0
                  \<and> count_list (pre @ number_spans c (map (apfst Not) rs)) l > 2)
              (expand_runs rs) (number_spans c (map (apfst Not) rs))
         = expand_runs (map (\<lambda>(b, n). (b \<and> n > 2, n)) rs)"
  using assms
proof (induction rs arbitrary: c pre)
  case Nil
  then show ?case by (simp add: expand_runs_Nil)
next
  case (Cons r rs)
  obtain b n where r: "r = (b, n)" by (cases r)
  show ?case
  proof (cases b)
    case True
    let ?N = "number_spans (Suc c) (map (apfst Not) rs)"
    let ?T = "pre @ number_spans c (map (apfst Not) (r # rs))"
    let ?pre = "pre @ replicate n (Suc c)"
    have T: "?T = ?pre @ ?N" using r True by simp
    have pre: "\<forall>l\<in>set ?pre. l \<le> Suc c" using Cons.prems by auto
    have "Suc c \<notin> set pre" using Cons.prems by auto
    moreover have "Suc c \<notin> set ?N" using number_spans_above[of "Suc c" "Suc c"] by auto
    ultimately have cnt: "count_list ?T (Suc c) = n"
      unfolding T by (simp add: count_list_0_iff count_list_replicate_same)
    have ih: "map2 (\<lambda>flag l. flag \<and> l \<noteq> 0 \<and> count_list ?T l > 2) (expand_runs rs) ?N
              = expand_runs (map (\<lambda>(b, n). (b \<and> n > 2, n)) rs)"
      unfolding T using Cons.IH[OF pre] by simp
    have "map2 (\<lambda>flag l. flag \<and> l \<noteq> 0 \<and> count_list ?T l > 2)
               (expand_runs (r # rs)) (number_spans c (map (apfst Not) (r # rs)))
          = map2 (\<lambda>flag l. flag \<and> l \<noteq> 0 \<and> count_list ?T l > 2)
               (replicate n True @ expand_runs rs) (replicate n (Suc c) @ ?N)"
      using r True by (simp add: expand_runs_Cons)
    also have "\<dots> = map2 (\<lambda>flag l. flag \<and> l \<noteq> 0 \<and> count_list ?T l > 2)
                      (replicate n True) (replicate n (Suc c))
                    @ map2 (\<lambda>flag l. flag \<and> l \<noteq> 0 \<and> count_list ?T l > 2)
                      (expand_runs rs) ?N"
      by (rule map2_append) simp
    also have "map2 (\<lambda>flag l. flag \<and> l \<noteq> 0 \<and> count_list ?T l > 2)
                      (replicate n True) (replicate n (Suc c)) = replicate n (n > 2)"
      unfolding map2_replicate using cnt by simp
    finally show ?thesis
      using ih r True by (simp add: expand_runs_Cons)
  next
    case False
    let ?N = "number_spans c (map (apfst Not) rs)"
    let ?T = "pre @ number_spans c (map (apfst Not) (r # rs))"
    let ?pre = "pre @ replicate n 0"
    have T: "?T = ?pre @ ?N" using r False by simp
    have pre: "\<forall>l\<in>set ?pre. l \<le> c" using Cons.prems by auto
    have ih: "map2 (\<lambda>flag l. flag \<and> l \<noteq> 0 \<and> count_list ?T l > 2) (expand_runs rs) ?N
              = expand_runs (map (\<lambda>(b, n). (b \<and> n > 2, n)) rs)"
      unfolding T using Cons.IH[OF pre] by simp
    have "map2 (\<lambda>flag l. flag \<and> l \<noteq> 0 \<and> count_list ?T l > 2)
               (expand_runs (r # rs)) (number_spans c (map (apfst Not) (r # rs)))
          = map2 (\<lambda>flag l. flag \<and> l \<noteq> 0 \<and> count_list ?T l > 2)
               (replicate n False @ expand_runs rs) (replicate n 0 @ ?N)"
      using r False by (simp add: expand_runs_Cons)
    also have "\<dots> = map2 (\<lambda>flag l. flag \<and> l \<noteq> 0 \<and> count_list ?T l > 2)
                      (replicate n False) (replicate n 0)
                    @ map2 (\<lambda>flag l. flag \<and> l \<noteq> 0 \<and> count_list ?T l > 2)
                      (expand_runs rs) ?N"
      by (rule map2_append) simp
    also have "map2 (\<lambda>flag l. flag \<and> l \<noteq> 0 \<and> count_list ?T l > 2)
                      (replicate n False) (replicate n 0) = replicate n False"
      unfolding map2_replicate by simp
    finally show ?thesis
      using ih r False by (simp add: expand_runs_Cons)
  qed
qed

lemma kept_ids:
  "l \<in> set (map fst (filter (\<lambda>(v, c). v \<noteq> 0 \<and> c > 2) (np_unique_counts labels)))
   \<longleftrightarrow> l \<in> set labels \<and> l \<noteq> 0 \<and> count_list labels l > 2"
  by (force simp: np_unique_counts_def np_unique_def)

lemma unflag_step:
  "map2 (\<lambda>flag l. if l \<notin> set (map fst (filter (\<lambda>(v, c). v \<noteq> 0 \<and> c > 2)
                                       (np_unique_counts (ndimage_label flags))))
                   then False else flag)
        flags (ndimage_label flags)
   = unflag_short_runs flags"
proof -
  let ?L = "ndimage_label flags"
  let ?ids = "map fst (filter (\<lambda>(v, c). v \<noteq> 0 \<and> c > 2) (np_unique_counts ?L))"
  have "map2 (\<lambda>flag l. if l \<notin> set ?ids then False else flag) flags ?L
        = map2 (\<lambda>flag l. flag \<and> l \<noteq> 0 \<and> count_list ([] @ ?L) l > 2) flags ?L"
  proof (rule map_cong[OF refl])
    fix p assume "p \<in> set (zip flags ?L)"
    then have "snd p \<in> set ?L" by (metis set_zip_rightD prod.collapse)
    then show "(case p of (flag, l) \<Rightarrow> if l \<notin> set ?ids then False else flag)
             = (case p of (flag, l) \<Rightarrow> flag \<and> l \<noteq> 0 \<and> count_list ([] @ ?L) l > 2)"
      using kept_ids[of "snd p" ?L] by (cases p) auto
  qed
  also have "\<dots> = expand_runs (map (\<lambda>(b, n). (b \<and> n > 2, n)) (runs flags))"
    using unflag_by_counts[of "[]" 0 "runs flags"]
    by (simp add: ndimage_label_runs expand_runs_runs)
  finally show ?thesis by (simp add: unflag_short_runs_def)
qed

lemma positive_labels_unique:
  "filter (\<lambda>v. v \<noteq> 0) (np_unique labels) = positive_labels labels"
proof -
  have "sorted (filter (\<lambda>v. v \<noteq> 0) (sort (remdups labels)))" by (simp add: sorted_wrt_filter)
  moreover have "distinct (filter (\<lambda>v. v \<noteq> 0) (sort (remdups labels)))" by simp
  moreover have "set (filter (\<lambda>v. v \<noteq> 0) (sort (remdups labels))) = {l \<in> set labels. l > 0}"
    by auto
  ultimately show ?thesis
    unfolding np_unique_def positive_labels_def
    by (metis (no_types, lifting) List.finite_set finite_Collect_conjI
        sorted_list_of_set.idem_if_sorted_distinct)
qed

subsection \<open>The detector\<close>

lemma length_detect_repeat_timestamps:
  "length (detect_repeat_timestamps timestamps) = Suc (length timestamps - 1)"
  by (simp add: detect_repeat_timestamps_def)

lemma length_find_large_frame_jumps:
  "length (find_large_frame_jumps frame_count m) = Suc (length frame_count - 1)"
  by (simp add: find_large_frame_jumps_def length_np_diff)

text \<open>
  Claim C7. For a table (as many times as frame counts) the detector takes the union of
  the repeated-timestamp flags and the frame-jump flags, un-flags every run of at most two
  flagged positions, numbers the maximal spans of the remaining non-flagged positions
  1, 2, ... from left to right with 0 on the flagged positions, and returns these labels
  with the sorted list of the positive labels present; there is one label for every
  sample.
\<close>

theorem detect_trodes_time_repeats_or_frame_jumps_segments:
  "length trodes_time = length frame_count \<longrightarrow>
     detect_trodes_time_repeats_or_frame_jumps trodes_time frame_count =
       Inr (label_spans (unflag_short_runs
              (map2 (\<or>) (detect_repeat_timestamps trodes_time)
                         (find_large_frame_jumps frame_count 15))),
            positive_labels (label_spans (unflag_short_runs
              (map2 (\<or>) (detect_repeat_timestamps trodes_time)
                         (find_large_frame_jumps frame_count 15)))))
   \<and> (trodes_time \<noteq> [] \<longrightarrow>
        length (label_spans (unflag_short_runs
              (map2 (\<or>) (detect_repeat_timestamps trodes_time)
                         (find_large_frame_jumps frame_count 15)))) = length trodes_time)"
proof (intro impI conjI)
  assume l: "length trodes_time = length frame_count"
  let ?a = "detect_repeat_timestamps trodes_time"
  let ?b = "find_large_frame_jumps frame_count 15"
  let ?flags = "map2 (\<or>) ?a ?b"
  have len: "length ?a = length ?b"
    using l by (simp add: length_detect_repeat_timestamps length_find_large_frame_jumps)
  then have u: "np_logical_or ?a ?b = Inr ?flags" by (simp add: np_logical_or_def)
  show "detect_trodes_time_repeats_or_frame_jumps trodes_time frame_count =
       Inr (label_spans (unflag_short_runs ?flags),
            positive_labels (label_spans (unflag_short_runs ?flags)))"
    unfolding detect_trodes_time_repeats_or_frame_jumps_def u
    by (simp only: sum.case Let_def unflag_step ndimage_label_Not positive_labels_unique)
  show "length (label_spans (unflag_short_runs ?flags)) = length trodes_time"
    if "trodes_time \<noteq> []"
    using that len
    by (cases trodes_time)
       (simp_all add: length_label_spans length_unflag_short_runs
          length_detect_repeat_timestamps)
qed

theorem detect_trodes_time_repeats_or_frame_jumps_segments_witness:
  "detect_trodes_time_repeats_or_frame_jumps
      [1, 2, 2, 2, 2, 5, 6, 7, 7, 8] [0, 1, 2, 3, 4, 5, 6, 7, 8, 9] =
     Inr ([1, 1, 0, 0, 0, 2, 2, 2, 2, 2], [1, 2])"
proof -
  have l: "length [1, 2, 2, 2, 2, 5, 6, 7, 7, 8 :: int]
           = length [0, 1, 2, 3, 4, 5, 6, 7, 8, 9 :: int]"
    by simp
  have f: "label_spans (unflag_short_runs
              (map2 (\<or>) (detect_repeat_timestamps [1, 2, 2, 2, 2, 5, 6, 7, 7, 8 :: int])
                         (find_large_frame_jumps [0, 1, 2, 3, 4, 5, 6, 7, 8, 9] 15)))
           = [1, 1, 0, 0, 0, 2, 2, 2, 2, 2]"
    by code_simp
  have p: "positive_labels [1, 1, 0, 0, 0, 2, 2, 2, 2, 2] = [1, 2]"
    by code_simp
  show ?thesis
    using detect_trodes_time_repeats_or_frame_jumps_segments
      [of "[1, 2, 2, 2, 2, 5, 6, 7, 7, 8]" "[0, 1, 2, 3, 4, 5, 6, 7, 8, 9]"] l
    by (simp only: f p)
qed

section \<open>Runs of the repository's tests and small examples\<close>

lemma find_large_frame_jumps_example:
  "find_large_frame_jumps [5, 10, 30, 40, 70] 15 = [False, False, True, False, True]"
  by code_simp

lemma detect_trodes_time_repeats_or_frame_jumps_example:
  "detect_trodes_time_repeats_or_frame_jumps [1, 2, 2, 3, 4, 5] [0, 10, 20, 30, 40, 1000] =
     Inr ([1, 1, 1, 1, 1, 1], [1])"
  by code_simp

lemma unflag_short_runs_example:
  "unflag_short_runs [False, True, True, False, True, True, True, False, True] =
     [False, False, False, False, True, True, True, False, False]"
  by code_simp

lemma label_spans_example:
  "label_spans [False, False, True, True, True, False, True, True, True, True, False] =
     [1, 1, 0, 0, 0, 2, 0, 0, 0, 0, 3]"
  by code_simp

lemma remove_acquisition_timing_pause_non_ptp_example:
  "remove_acquisition_timing_pause_non_ptp [100, 200, 300] [5, 10, 15] [50, 150, 250]
      [True, True, True] 150 =
     Inr ([200, 300], [15], [False, False, True], [250])"
  by code_simp

text \<open>
  The window test is the one of the doubles. The samples 700000000 and 1100000000 are 0.4
  seconds apart, and the quotients 0.7 and 1.1 differ by 0.40000000000000013; the samples
  900000000 and 1900000000 are 1.0 seconds apart, and the quotients differ by
  0.9999999999999999.
\<close>

lemma find_acquisition_timing_pause_lower_bound_example:
  "find_acquisition_timing_pause_int64 [700000000, 1100000000, 1600000000]
     (float64 (2 / 5)) 1 100 = Inr 900000000"
  by code_simp

lemma find_acquisition_timing_pause_upper_bound_example:
  "find_acquisition_timing_pause_int64 [900000000, 1900000000] (float64 (2 / 5)) 1 100 =
     Inr 1400000000"
  by code_simp

lemma non_ptp_pause_mid_time_example:
  "non_ptp_pause_mid_time [float64 (7 / 10), float64 (11 / 10)] =
     Inr (float64 (9 / 10), [(INFO, ''Camera frame rate estimated from DIO camera ticks:'')])"
  by code_simp

text \<open>An epoch with a tracking file and no hardware-sync file.\<close>

lemma epoch_file_lookup_no_hw_sync_example:
  "epoch_file_lookup
     [\<lparr>epoch = 1, file_extension = ''.videoPositionTracking'',
       full_path = ''s_01.1.videoPositionTracking''\<rparr>] 1 = Inl AttributeError"
  by code_simp

end
